theory Spec2Isabelle
  imports Complex_Main "HOL-Library.List_Lexorder" "HOL-Library.Char_ord" "HOL-Library.Multiset"
    "HOL-Library.Sublist"
begin

section \<open>Numbers\<close>

text \<open>
  Every quantity, rate, amount and balance of the front-end is a JavaScript \<^verbatim>\<open>number\<close>.
  The model keeps the one non-numeric value the code tests for, \<^verbatim>\<open>NaN\<close>, and takes every
  other number as an exact real: rounding of binary floating point, overflow and the two
  infinities are outside the model. The operations below follow ECMAScript on that domain:
  arithmetic propagates \<^verbatim>\<open>NaN\<close>, every comparison with \<^verbatim>\<open>NaN\<close> is false, and
  \<^verbatim>\<open>Math.min\<close>/\<^verbatim>\<open>Math.max\<close> return \<^verbatim>\<open>NaN\<close> as soon as one argument is \<^verbatim>\<open>NaN\<close>.
\<close>

datatype jsnum = NaN | Num real

fun isNaN :: "jsnum \<Rightarrow> bool" where
  "isNaN NaN = True"
| "isNaN (Num a) = False"

fun js_add :: "jsnum \<Rightarrow> jsnum \<Rightarrow> jsnum" where
  "js_add (Num a) (Num b) = Num (a + b)"
| "js_add NaN y = NaN"
| "js_add x NaN = NaN"

fun js_sub :: "jsnum \<Rightarrow> jsnum \<Rightarrow> jsnum" where
  "js_sub (Num a) (Num b) = Num (a - b)"
| "js_sub NaN y = NaN"
| "js_sub x NaN = NaN"

fun js_mul :: "jsnum \<Rightarrow> jsnum \<Rightarrow> jsnum" where
  "js_mul (Num a) (Num b) = Num (a * b)"
| "js_mul NaN y = NaN"
| "js_mul x NaN = NaN"

text \<open>
  Division by zero gives an infinity or \<^verbatim>\<open>NaN\<close> in JavaScript; the model has no
  infinity and returns \<^verbatim>\<open>NaN\<close>. No call site modelled here divides by zero: the
  divisors are the constant 100 and a quantity that has passed the test \<^verbatim>\<open>quantity <= 0\<close>.
\<close>

fun js_div :: "jsnum \<Rightarrow> jsnum \<Rightarrow> jsnum" where
  "js_div (Num a) (Num b) = (if b = 0 then NaN else Num (a / b))"
| "js_div NaN y = NaN"
| "js_div x NaN = NaN"

fun js_lt :: "jsnum \<Rightarrow> jsnum \<Rightarrow> bool" where
  "js_lt (Num a) (Num b) = (a < b)"
| "js_lt NaN y = False"
| "js_lt x NaN = False"

fun js_le :: "jsnum \<Rightarrow> jsnum \<Rightarrow> bool" where
  "js_le (Num a) (Num b) = (a \<le> b)"
| "js_le NaN y = False"
| "js_le x NaN = False"

fun js_gt :: "jsnum \<Rightarrow> jsnum \<Rightarrow> bool" where
  "js_gt (Num a) (Num b) = (a > b)"
| "js_gt NaN y = False"
| "js_gt x NaN = False"

fun js_min :: "jsnum \<Rightarrow> jsnum \<Rightarrow> jsnum" where
  "js_min (Num a) (Num b) = Num (min a b)"
| "js_min NaN y = NaN"
| "js_min x NaN = NaN"

fun js_max :: "jsnum \<Rightarrow> jsnum \<Rightarrow> jsnum" where
  "js_max (Num a) (Num b) = Num (max a b)"
| "js_max NaN y = NaN"
| "js_max x NaN = NaN"

text \<open>\<^verbatim>\<open>x || d\<close> on numbers: the falsy numbers are \<^verbatim>\<open>NaN\<close> and zero.\<close>

fun js_or :: "jsnum \<Rightarrow> jsnum \<Rightarrow> jsnum" where
  "js_or NaN d = d"
| "js_or (Num a) d = (if a = 0 then d else Num a)"

text \<open>
  \<^verbatim>\<open>parseFloat(x.toFixed(4))\<close>: \<^verbatim>\<open>toFixed\<close> picks the integer \<open>n\<close> with \<open>n / 10^4\<close> closest to
  the magnitude of \<open>x\<close>, the larger one on a tie, keeps the sign, and prints the number itself
  from \<open>10^21\<close> on; \<^verbatim>\<open>NaN\<close> prints as "NaN", which parses back to \<^verbatim>\<open>NaN\<close>.
\<close>

definition round4 :: "real \<Rightarrow> real" where
  "round4 x =
     (if \<bar>x\<bar> \<ge> 10 ^ 21 then x
      else if x < 0 then - (real_of_int \<lfloor>- x * 10 ^ 4 + 1 / 2\<rfloor> / 10 ^ 4)
      else real_of_int \<lfloor>x * 10 ^ 4 + 1 / 2\<rfloor> / 10 ^ 4)"

fun parseFloat_toFixed4 :: "jsnum \<Rightarrow> jsnum" where
  "parseFloat_toFixed4 NaN = NaN"
| "parseFloat_toFixed4 (Num a) = Num (round4 a)"

text \<open>The real value of a number, with \<^verbatim>\<open>NaN\<close> read as zero (used in statements only).\<close>

fun num_val :: "jsnum \<Rightarrow> real" where
  "num_val NaN = 0"
| "num_val (Num a) = a"

section \<open>Data model\<close>

text \<open>
  The interfaces of \<^verbatim>\<open>data/types\<close> and \<^verbatim>\<open>forms/order/types.ts\<close>, restricted to the fields
  the modelled functions read, each declared in the section that first uses it. A field name
  that occurs in several interfaces (\<^verbatim>\<open>id\<close>, \<^verbatim>\<open>name\<close>, \<^verbatim>\<open>type\<close>, \<^verbatim>\<open>amount\<close>) carries the
  interface as a prefix. An optional field is an \<open>option\<close>; a \<^verbatim>\<open>Date\<close> is its time value
  in milliseconds.
\<close>

datatype order_type = BUY | SELL | MISC

datatype charge_type = Fixed | Percentage

datatype FormStep = Details | Payment | Summary

record StockFiFoQueue =
  fifo_id :: string
  estimatedPrice :: jsnum
  availableStock :: jsnum

record ProductVariant =
  variant_id :: string
  variant_name :: string
  price :: jsnum
  buyPrice :: jsnum
  stock_fifo_queue :: "StockFiFoQueue list option"

record Product =
  product_id :: string
  product_name :: string
  variants :: "ProductVariant list option"

section \<open>FIFO Stock Ledger (\<^verbatim>\<open>forms/order/product-details.tsx\<close>)\<close>

text \<open>
  \<^verbatim>\<open>getVariantStock(variant?)\<close>: zero for a missing variant or a missing queue, else the
  left fold of \<^verbatim>\<open>total + entry.availableStock\<close>.
\<close>

definition getVariantStock :: "ProductVariant option \<Rightarrow> jsnum" where
  "getVariantStock variant =
     (case variant of
        None \<Rightarrow> Num 0
      | Some v \<Rightarrow>
          (case stock_fifo_queue v of
             None \<Rightarrow> Num 0
           | Some queue \<Rightarrow> foldl (\<lambda>total entry. js_add total (availableStock entry)) (Num 0) queue))"

text \<open>
  The \<^verbatim>\<open>for\<close> loop of \<^verbatim>\<open>getVariantEstimatedPrice\<close>, with its two variables
  \<^verbatim>\<open>remainingQty\<close> and \<^verbatim>\<open>totalPrice\<close>: \<^verbatim>\<open>continue\<close> on an entry without stock, \<^verbatim>\<open>break\<close>
  once nothing remains.
\<close>

fun price_loop :: "StockFiFoQueue list \<Rightarrow> jsnum \<Rightarrow> jsnum \<Rightarrow> jsnum" where
  "price_loop [] remainingQty totalPrice = totalPrice"
| "price_loop (entry # rest) remainingQty totalPrice =
     (if js_le (availableStock entry) (Num 0) then price_loop rest remainingQty totalPrice
      else
        let qtyToUse = js_min (availableStock entry) remainingQty;
            totalPrice' = js_add totalPrice (js_mul qtyToUse (estimatedPrice entry));
            remainingQty' = js_sub remainingQty qtyToUse
        in if js_le remainingQty' (Num 0) then totalPrice'
           else price_loop rest remainingQty' totalPrice')"

definition getVariantEstimatedPrice :: "ProductVariant \<Rightarrow> jsnum \<Rightarrow> jsnum" where
  "getVariantEstimatedPrice variant quantity =
     (let totalStock = getVariantStock (Some variant)
      in case stock_fifo_queue variant of
           None \<Rightarrow> Num 0
         | Some queue \<Rightarrow>
             if js_le quantity (Num 0) \<or> js_gt quantity totalStock then Num 0
             else js_or (parseFloat_toFixed4 (js_div (price_loop queue quantity (Num 0)) quantity)) (Num 0))"

text \<open>
  The lots the loop consumes, in the order it consumes them: the same control flow as
  \<open>price_loop\<close>, recording each \<^verbatim>\<open>(entry, qtyToUse)\<close> instead of adding its cost.
\<close>

fun consumed_loop :: "StockFiFoQueue list \<Rightarrow> jsnum \<Rightarrow> (StockFiFoQueue \<times> jsnum) list" where
  "consumed_loop [] remainingQty = []"
| "consumed_loop (entry # rest) remainingQty =
     (if js_le (availableStock entry) (Num 0) then consumed_loop rest remainingQty
      else
        let qtyToUse = js_min (availableStock entry) remainingQty;
            remainingQty' = js_sub remainingQty qtyToUse
        in if js_le remainingQty' (Num 0) then [(entry, qtyToUse)]
           else (entry, qtyToUse) # consumed_loop rest remainingQty')"

text \<open>The consumption of a whole query: nothing when the guard returns before the loop.\<close>

definition consumed :: "ProductVariant \<Rightarrow> jsnum \<Rightarrow> (StockFiFoQueue \<times> jsnum) list" where
  "consumed variant quantity =
     (case stock_fifo_queue variant of
        None \<Rightarrow> []
      | Some queue \<Rightarrow>
          if js_le quantity (Num 0) \<or> js_gt quantity (getVariantStock (Some variant)) then []
          else consumed_loop queue quantity)"

definition cost_of :: "(StockFiFoQueue \<times> jsnum) list \<Rightarrow> jsnum \<Rightarrow> jsnum" where
  "cost_of trace start =
     foldl (\<lambda>totalPrice (entry, qtyToUse). js_add totalPrice (js_mul qtyToUse (estimatedPrice entry)))
           start trace"

text \<open>
  One consumption is a FIFO prefix of another: the same lots with the same quantities, in the
  same order, except that the last lot of the shorter one may be taken in part.
\<close>

fun fifo_prefix :: "(StockFiFoQueue \<times> jsnum) list \<Rightarrow> (StockFiFoQueue \<times> jsnum) list \<Rightarrow> bool" where
  "fifo_prefix [] t2 = True"
| "fifo_prefix (x # t1) [] = False"
| "fifo_prefix [(e1, k1)] ((e2, k2) # t2) = (e1 = e2 \<and> js_le k1 k2)"
| "fifo_prefix ((e1, k1) # t1) ((e2, k2) # t2) = (e1 = e2 \<and> k1 = k2 \<and> fifo_prefix t1 t2)"

text \<open>The lots of a variant: none when it has no queue.\<close>

definition queue_of :: "ProductVariant \<Rightarrow> StockFiFoQueue list" where
  "queue_of variant = (case stock_fifo_queue variant of None \<Rightarrow> [] | Some queue \<Rightarrow> queue)"

text \<open>
  The lots the loop does not skip, and the stock they hold together (a lot with a negative
  \<^verbatim>\<open>availableStock\<close> lowers \<open>getVariantStock\<close> but is never consumed).
\<close>

definition has_stock :: "StockFiFoQueue \<Rightarrow> bool" where
  "has_stock e = (\<not> js_le (availableStock e) (Num 0))"

definition positive_stock :: "StockFiFoQueue list \<Rightarrow> real" where
  "positive_stock es = (\<Sum>e\<leftarrow>es. max 0 (num_val (availableStock e)))"

section \<open>Entity ledger and Settlement Reducer (\<^verbatim>\<open>modules/SingleEntityDetails.tsx\<close>)\<close>

record Order =
  order_id :: string
  order_type :: order_type
  createdAt :: string
  totalAmount :: jsnum
  paidTillNow :: "jsnum option"

record Entity =
  entity_id :: string
  isDefault :: bool
  orders :: "Order list option"

text \<open>One transaction to post: the element type of \<^verbatim>\<open>toPayOrders\<close>.\<close>

record allocation =
  alloc_orderId :: string
  alloc_accountId :: string
  alloc_amount :: jsnum

definition calculateOrderPaidAmount :: "Order \<Rightarrow> jsnum" where
  "calculateOrderPaidAmount order =
     (case paidTillNow order of None \<Rightarrow> Num 0 | Some paid \<Rightarrow> js_or paid (Num 0))"

definition calculateOrderRemaining :: "Order \<Rightarrow> jsnum" where
  "calculateOrderRemaining order =
     (let paidAmount = calculateOrderPaidAmount order
      in js_sub (totalAmount order) paidAmount)"

text \<open>
  \<^verbatim>\<open>createdAt\<close> is an ISO-8601 timestamp. On timestamps of one format \<^verbatim>\<open>localeCompare\<close>
  orders as the code units do, which is the lexicographic order of \<open>string\<close>.
\<close>

definition localeCompare :: "string \<Rightarrow> string \<Rightarrow> int" where
  "localeCompare a b = (if a < b then - 1 else if a = b then 0 else 1)"

definition compareOrders :: "Order \<Rightarrow> Order \<Rightarrow> int" where
  "compareOrders a b =
     (if order_type a = BUY \<and> order_type b \<noteq> BUY then - 1
      else if order_type b = BUY \<and> order_type a \<noteq> BUY then 1
      else localeCompare (createdAt a) (createdAt b))"

text \<open>
  \<^verbatim>\<open>Array.prototype.sort\<close> with a comparator is a stable sort: here the stable insertion
  sort, an element going before the first one it does not compare greater than.
\<close>

fun insert_by :: "('a \<Rightarrow> 'a \<Rightarrow> int) \<Rightarrow> 'a \<Rightarrow> 'a list \<Rightarrow> 'a list" where
  "insert_by cmp x [] = [x]"
| "insert_by cmp x (y # ys) = (if cmp x y \<le> 0 then x # y # ys else y # insert_by cmp x ys)"

definition sort_by :: "('a \<Rightarrow> 'a \<Rightarrow> int) \<Rightarrow> 'a list \<Rightarrow> 'a list" where
  "sort_by cmp xs = foldr (insert_by cmp) xs []"

definition ordersToProcess :: "Entity \<Rightarrow> Order list" where
  "ordersToProcess entity =
     (case orders entity of
        None \<Rightarrow> []
      | Some os \<Rightarrow>
          sort_by compareOrders (filter (\<lambda>order. js_gt (calculateOrderRemaining order) (Num 0)) os))"

text \<open>
  The \<^verbatim>\<open>for\<close> loop of \<^verbatim>\<open>handleAddPayment\<close> with its variables \<^verbatim>\<open>remainingAmount\<close> and
  \<^verbatim>\<open>toPayOrders\<close>: \<^verbatim>\<open>break\<close> when the budget is used up, \<^verbatim>\<open>continue\<close> on an order with
  nothing to pay.
\<close>

fun pay_loop :: "string \<Rightarrow> Order list \<Rightarrow> jsnum \<Rightarrow> allocation list \<Rightarrow> allocation list" where
  "pay_loop accountId [] remainingAmount toPayOrders = toPayOrders"
| "pay_loop accountId (order # rest) remainingAmount toPayOrders =
     (if js_le remainingAmount (Num 0) then toPayOrders
      else
        let toPay = calculateOrderRemaining order
        in if js_le toPay (Num 0) then pay_loop accountId rest remainingAmount toPayOrders
           else
             let remaining = js_min remainingAmount toPay;
                 remainingAmount' = js_sub remainingAmount remaining
             in pay_loop accountId rest remainingAmount'
                  (if js_gt remaining (Num 0)
                   then toPayOrders @
                          [\<lparr>alloc_orderId = order_id order, alloc_accountId = accountId,
                            alloc_amount = remaining\<rparr>]
                   else toPayOrders))"

text \<open>
  \<^verbatim>\<open>handleAddPayment\<close> up to the network: its value is the list of transactions it posts,
  none when it returns at the guard \<^verbatim>\<open>amount <= 0\<close>.
\<close>

definition handleAddPayment :: "Entity \<Rightarrow> jsnum \<Rightarrow> string \<Rightarrow> allocation list" where
  "handleAddPayment entity amount accountId =
     (if js_le amount (Num 0) then []
      else pay_loop accountId (ordersToProcess entity) amount [])"





definition outstanding :: "Entity \<Rightarrow> Order list" where
  "outstanding entity =
     filter (\<lambda>order. js_gt (calculateOrderRemaining order) (Num 0))
            (case orders entity of None \<Rightarrow> [] | Some os \<Rightarrow> os)"

section \<open>Order Pricing Engine (\<^verbatim>\<open>forms/order/types.ts\<close>)\<close>

record OrderProduct =
  productId :: string
  variantId :: string
  rate :: jsnum
  quantity :: jsnum
  description :: string

record OrderCharge =
  charge_id :: string
  charge_name :: string
  charge_amount :: jsnum
  charge_type :: charge_type
  percentage :: jsnum
  isPaidByBusiness :: bool


definition calculateChargeAmount :: "jsnum \<Rightarrow> jsnum \<Rightarrow> OrderCharge list \<Rightarrow> jsnum" where
  "calculateChargeAmount subTotal discount charges =
     (let baseAmount = js_sub subTotal discount
      in foldl (\<lambda>sum charge.
                  let chargeAmount =
                        (if charge_type charge = Percentage
                         then js_div (js_mul baseAmount (percentage charge)) (Num 100)
                         else charge_amount charge)
                  in js_add sum (if isNaN chargeAmount then Num 0 else chargeAmount))
               (Num 0) (filter (\<lambda>charge. \<not> isPaidByBusiness charge) charges))"

definition calculateVendorCharges :: "jsnum \<Rightarrow> OrderCharge list \<Rightarrow> jsnum" where
  "calculateVendorCharges subTotal charges =
     foldl (\<lambda>sum charge.
              let chargeAmount =
                    (if charge_type charge = Percentage
                     then js_div (js_mul subTotal (percentage charge)) (Num 100)
                     else charge_amount charge)
              in js_add sum (if isNaN chargeAmount then Num 0 else chargeAmount))
           (Num 0) (filter (\<lambda>charge. isPaidByBusiness charge) charges)"



definition charge_term :: "jsnum \<Rightarrow> OrderCharge \<Rightarrow> real" where
  "charge_term base c =
     (if charge_type c = Percentage
      then num_val (js_div (js_mul base (percentage c)) (Num 100))
      else num_val (charge_amount c))"

section \<open>Stock Validation and Balance Validation (\<^verbatim>\<open>forms/order/types.ts\<close>)\<close>

record Account =
  account_id :: string
  account_name :: string
  balance :: jsnum

record OrderPayment =
  accountId :: string
  payment_amount :: jsnum

record validation =
  isValid :: bool
  errors :: "string list"

text \<open>
  \<^verbatim>\<open>new Map(pairs)\<close> keeps, for a key that occurs twice, the value of its last pair:
  a lookup in the reversed list of pairs.
\<close>

definition variantMap :: "Product list \<Rightarrow> string \<Rightarrow> ProductVariant option" where
  "variantMap products =
     map_of (rev (concat (map (\<lambda>p. case variants p of
                                      None \<Rightarrow> []
                                    | Some vs \<Rightarrow> map (\<lambda>v. (variant_id v, v)) vs) products)))"

definition productMap :: "Product list \<Rightarrow> string \<Rightarrow> Product option" where
  "productMap products = map_of (rev (map (\<lambda>p. (product_id p, p)) products))"

definition accountMap :: "Account list \<Rightarrow> string \<Rightarrow> Account option" where
  "accountMap accounts = map_of (rev (map (\<lambda>acc. (account_id acc, acc)) accounts))"

text \<open>
  The variants of a catalogue, in the order \<^verbatim>\<open>flatMap\<close> lists them: product by product, a
  product without variants adding none.
\<close>

definition all_variants :: "Product list \<Rightarrow> ProductVariant list" where
  "all_variants products =
     concat (map (\<lambda>p. case variants p of None \<Rightarrow> [] | Some vs \<Rightarrow> vs) products)"

text \<open>
  The two template literals. How a number prints is the language's business: \<open>str\<close> stands
  for the conversion of a number to a string inside a template, \<open>toFixed2\<close> for
  \<^verbatim>\<open>toFixed(2)\<close>. A product that is not found prints as \<^verbatim>\<open>undefined\<close>.
\<close>

definition stock_error ::
  "(jsnum \<Rightarrow> string) \<Rightarrow> Product list \<Rightarrow> nat \<Rightarrow> OrderProduct \<Rightarrow> ProductVariant \<Rightarrow> string" where
  "stock_error str products index item variant =
     ''Item #'' @ str (Num (real (index + 1))) @ '' ('' @
     (case productMap products (productId item) of None \<Rightarrow> ''undefined'' | Some product \<Rightarrow> product_name product) @
     '' - '' @ variant_name variant @ ''): Quantity ('' @ str (quantity item) @
     '') exceeds available stock ('' @ str (getVariantStock (Some variant)) @ '').''"

definition balance_error ::
  "(jsnum \<Rightarrow> string) \<Rightarrow> (jsnum \<Rightarrow> string) \<Rightarrow> nat \<Rightarrow> OrderPayment \<Rightarrow> Account \<Rightarrow> string" where
  "balance_error str toFixed2 index payment account =
     ''Payment #'' @ str (Num (real (index + 1))) @ '' ('' @ account_name account @
     ''): Amount ('' @ toFixed2 (payment_amount payment) @ '') exceeds balance ('' @
     toFixed2 (balance account) @ '')''"

text \<open>
  \<^verbatim>\<open>validateProductQuantities\<close>. Its local \<^verbatim>\<open>getVariantStock\<close> has the body of the one in
  \<^verbatim>\<open>product-details.tsx\<close>. The \<^verbatim>\<open>forEach\<close> with its index is a left fold over the
  enumerated list, \<^verbatim>\<open>errors.push\<close> appends.
\<close>

definition validateProductQuantities ::
  "(jsnum \<Rightarrow> string) \<Rightarrow> order_type \<Rightarrow> Product list \<Rightarrow> OrderProduct list \<Rightarrow> validation" where
  "validateProductQuantities str type products addedProducts =
     (if type \<noteq> SELL then \<lparr>isValid = True, errors = []\<rparr>
      else
        let errs =
              foldl (\<lambda>errs (index, item).
                       case variantMap products (variantId item) of
                         None \<Rightarrow> errs
                       | Some variant \<Rightarrow>
                           if js_gt (quantity item) (getVariantStock (Some variant))
                           then errs @ [stock_error str products index item variant]
                           else errs)
                    [] (enumerate 0 addedProducts)
        in \<lparr>isValid = (length errs = 0), errors = errs\<rparr>)"

definition validateAccountBalances ::
  "(jsnum \<Rightarrow> string) \<Rightarrow> (jsnum \<Rightarrow> string) \<Rightarrow> OrderPayment list \<Rightarrow> Account list \<Rightarrow> order_type
     \<Rightarrow> validation" where
  "validateAccountBalances str toFixed2 payments accounts type =
     (if type \<noteq> BUY then \<lparr>isValid = True, errors = []\<rparr>
      else
        let errs =
              foldl (\<lambda>errs (index, payment).
                       case accountMap accounts (accountId payment) of
                         None \<Rightarrow> errs
                       | Some account \<Rightarrow>
                           if js_gt (payment_amount payment) (balance account)
                           then errs @ [balance_error str toFixed2 index payment account]
                           else errs)
                    [] (enumerate 0 payments)
        in \<lparr>isValid = (length errs = 0), errors = errs\<rparr>)"

text \<open>
  The offending lines: a line item whose variant resolves and whose quantity exceeds that
  variant's stock, a payment whose account resolves and whose amount exceeds its balance.
\<close>

definition exceeds_stock :: "Product list \<Rightarrow> OrderProduct \<Rightarrow> bool" where
  "exceeds_stock products item =
     (case variantMap products (variantId item) of
        None \<Rightarrow> False
      | Some variant \<Rightarrow> js_gt (quantity item) (getVariantStock (Some variant)))"

definition exceeds_balance :: "Account list \<Rightarrow> OrderPayment \<Rightarrow> bool" where
  "exceeds_balance accounts payment =
     (case accountMap accounts (accountId payment) of
        None \<Rightarrow> False
      | Some account \<Rightarrow> js_gt (payment_amount payment) (balance account))"

text \<open>What one line adds to the list of errors: nothing, or its one message.\<close>

definition stock_line_errors ::
  "(jsnum \<Rightarrow> string) \<Rightarrow> Product list \<Rightarrow> nat \<times> OrderProduct \<Rightarrow> string list" where
  "stock_line_errors str products line =
     (case variantMap products (variantId (snd line)) of
        None \<Rightarrow> []
      | Some variant \<Rightarrow>
          if js_gt (quantity (snd line)) (getVariantStock (Some variant))
          then [stock_error str products (fst line) (snd line) variant]
          else [])"

definition balance_line_errors ::
  "(jsnum \<Rightarrow> string) \<Rightarrow> (jsnum \<Rightarrow> string) \<Rightarrow> Account list \<Rightarrow> nat \<times> OrderPayment \<Rightarrow> string list" where
  "balance_line_errors str toFixed2 accounts line =
     (case accountMap accounts (accountId (snd line)) of
        None \<Rightarrow> []
      | Some account \<Rightarrow>
          if js_gt (payment_amount (snd line)) (balance account)
          then [balance_error str toFixed2 (fst line) (snd line) account]
          else [])"

section \<open>Quantity stepper (\<^verbatim>\<open>ProductItemRow\<close> in \<^verbatim>\<open>forms/order/product-details.tsx\<close>)\<close>

text \<open>\<^verbatim>\<open>Partial<OrderProduct>\<close>: every field may be absent.\<close>

record OrderProductUpdates =
  upd_productId :: "string option"
  upd_variantId :: "string option"
  upd_rate :: "jsnum option"
  upd_quantity :: "jsnum option"
  upd_description :: "string option"

text \<open>The object spread \<^verbatim>\<open>{ ...item, ...updates }\<close>.\<close>

definition spread :: "OrderProduct \<Rightarrow> OrderProductUpdates \<Rightarrow> OrderProduct" where
  "spread item updates =
     \<lparr>productId = (case upd_productId updates of None \<Rightarrow> productId item | Some x \<Rightarrow> x),
      variantId = (case upd_variantId updates of None \<Rightarrow> variantId item | Some x \<Rightarrow> x),
      rate = (case upd_rate updates of None \<Rightarrow> rate item | Some x \<Rightarrow> x),
      quantity = (case upd_quantity updates of None \<Rightarrow> quantity item | Some x \<Rightarrow> x),
      description = (case upd_description updates of None \<Rightarrow> description item | Some x \<Rightarrow> x)\<rparr>"

definition updateProductAtIndex ::
  "OrderProduct list \<Rightarrow> nat \<Rightarrow> OrderProductUpdates \<Rightarrow> OrderProduct list" where
  "updateProductAtIndex addedProducts index updates =
     map (\<lambda>(i, item). if i = index then spread item updates else item) (enumerate 0 addedProducts)"

text \<open>
  \<^verbatim>\<open>handleQuantityChange\<close> of the row at \<open>index\<close>, whose \<^verbatim>\<open>variant\<close> is the row's resolved
  variant if any, followed by the \<^verbatim>\<open>onUpdate\<close> it calls: the value is the new cart.
\<close>

definition handleQuantityChange ::
  "order_type \<Rightarrow> ProductVariant option \<Rightarrow> OrderProduct list \<Rightarrow> nat \<Rightarrow> jsnum \<Rightarrow> OrderProduct list" where
  "handleQuantityChange type variant addedProducts index newQuantity =
     (let stock = getVariantStock variant;
          quantity = js_max (Num 1) (js_or newQuantity (Num 1));
          quantity = (case variant of
                        None \<Rightarrow> quantity
                      | Some v \<Rightarrow> if type = SELL then js_min quantity stock else quantity);
          updates = \<lparr>upd_productId = None, upd_variantId = None,
                     upd_rate = (case variant of
                                   None \<Rightarrow> None
                                 | Some v \<Rightarrow> if type = SELL then Some (price v) else None),
                     upd_quantity = Some quantity, upd_description = None\<rparr>
      in updateProductAtIndex addedProducts index updates)"

text \<open>The first clamp of the handler, \<^verbatim>\<open>Math.max(1, newQuantity || 1)\<close>, on its own.\<close>

definition clamp_min1 :: "jsnum \<Rightarrow> jsnum" where
  "clamp_min1 newQuantity = js_max (Num 1) (js_or newQuantity (Num 1))"

section \<open>Order form (\<^verbatim>\<open>forms/order/create-order.tsx\<close>)\<close>

record OrderFormState =
  entity :: "Entity option"
  products :: "OrderProduct list"
  discount :: jsnum
  discountType :: charge_type
  discountPercentage :: jsnum
  charges :: "OrderCharge list"
  tax :: jsnum
  taxType :: charge_type
  taxPercentage :: jsnum
  form_description :: string
  orderDate :: int
  payments :: "OrderPayment list"
  isPublic :: bool

text \<open>The component's state: the four \<^verbatim>\<open>useState\<close> cells of \<^verbatim>\<open>CreateOrder\<close>.\<close>

record CreateOrder =
  formState :: OrderFormState
  currentStep :: FormStep
  error :: "string option"
  loading :: bool

text \<open>
  \<^verbatim>\<open>resetForm\<close>. It reads the clock: \<^verbatim>\<open>new Date()\<close> is the time \<open>now\<close> of the call.
\<close>

definition resetForm :: "int \<Rightarrow> CreateOrder \<Rightarrow> CreateOrder" where
  "resetForm now st =
     (let resetState =
            \<lparr>entity = None,
             products = [\<lparr>productId = '''', variantId = '''', rate = Num 0, quantity = Num 1,
                          description = ''''\<rparr>],
             discount = Num 0,
             discountType = Fixed,
             discountPercentage = Num 0,
             charges = [],
             tax = Num 0,
             taxType = Fixed,
             taxPercentage = Num 0,
             form_description = '''',
             orderDate = now,
             payments = [],
             isPublic = False\<rparr>
      in st\<lparr>formState := resetState, error := None, currentStep := Details\<rparr>)"

section \<open>Example data\<close>

text \<open>
  A variant with two lots, 5 units at 10 and 10 units at 12, a variant without stock, and a
  cart, an account and a ledger around them.
\<close>

definition lots_example :: "StockFiFoQueue list" where
  "lots_example =
     [\<lparr>fifo_id = ''lot1'', estimatedPrice = Num 10, availableStock = Num 5\<rparr>,
      \<lparr>fifo_id = ''lot2'', estimatedPrice = Num 12, availableStock = Num 10\<rparr>]"

definition variant_example :: ProductVariant where
  "variant_example =
     \<lparr>variant_id = ''v1'', variant_name = ''Shirt-M'', price = Num 15, buyPrice = Num 9,
      stock_fifo_queue = Some lots_example\<rparr>"

definition variant_empty :: ProductVariant where
  "variant_empty =
     \<lparr>variant_id = ''v2'', variant_name = ''Shirt-L'', price = Num 15, buyPrice = Num 9,
      stock_fifo_queue = Some []\<rparr>"

definition product_example :: Product where
  "product_example =
     \<lparr>product_id = ''p1'', product_name = ''Shirt'', variants = Some [variant_example]\<rparr>"

definition line_ok :: OrderProduct where
  "line_ok = \<lparr>productId = ''p1'', variantId = ''v1'', rate = Num 15, quantity = Num 3,
              description = ''''\<rparr>"

definition line_over :: OrderProduct where
  "line_over = \<lparr>productId = ''p1'', variantId = ''v1'', rate = Num 15, quantity = Num 20,
                description = ''''\<rparr>"

definition line_edited :: OrderProduct where
  "line_edited = \<lparr>productId = ''p1'', variantId = ''v1'', rate = Num 99, quantity = Num 3,
                  description = ''''\<rparr>"

definition account_example :: Account where
  "account_example = \<lparr>account_id = ''a1'', account_name = ''Cash'', balance = Num 100\<rparr>"

definition payment_ok :: OrderPayment where
  "payment_ok = \<lparr>accountId = ''a1'', payment_amount = Num 50\<rparr>"

definition payment_over :: OrderPayment where
  "payment_over = \<lparr>accountId = ''a1'', payment_amount = Num 150\<rparr>"

text \<open>
  A catalogue of one product and a line item that names its variant under a product
  identifier the catalogue does not have.
\<close>

definition catalogue_orphan :: "Product list" where
  "catalogue_orphan =
     [\<lparr>product_id = ''p1'', product_name = ''Shirt'',
       variants = Some [\<lparr>variant_id = ''v7'', variant_name = ''Medium'', price = Num 15,
                         buyPrice = Num 9, stock_fifo_queue = Some lots_example\<rparr>]\<rparr>]"

definition line_orphan :: OrderProduct where
  "line_orphan = \<lparr>productId = ''p9'', variantId = ''v7'', rate = Num 15, quantity = Num 20,
                  description = ''''\<rparr>"

text \<open>A printer for the numbers of the examples.\<close>

definition print_example :: "jsnum \<Rightarrow> string" where
  "print_example n =
     (if n = Num 1 then ''1'' else if n = Num 2 then ''2'' else if n = Num 15 then ''15''
      else if n = Num 20 then ''20'' else if n = Num 100 then ''100.00''
      else if n = Num 150 then ''150.00'' else ''?'')"

text \<open>
  Four orders of one entity: two purchases with 300 and 500 left to pay, a sale with 50
  left, and a purchase that was paid 150 on a total of 100.
\<close>

definition order_A :: Order where
  "order_A = \<lparr>order_id = ''A'', order_type = BUY, createdAt = ''2024-01-15T09:30:00.000Z'',
              totalAmount = Num 1000, paidTillNow = Some (Num 700)\<rparr>"

definition order_B :: Order where
  "order_B = \<lparr>order_id = ''B'', order_type = BUY, createdAt = ''2024-02-01T12:00:00.000Z'',
              totalAmount = Num 500, paidTillNow = None\<rparr>"

definition order_C :: Order where
  "order_C = \<lparr>order_id = ''C'', order_type = SELL, createdAt = ''2024-01-01T08:00:00.000Z'',
              totalAmount = Num 50, paidTillNow = Some (Num 0)\<rparr>"

definition order_D :: Order where
  "order_D = \<lparr>order_id = ''D'', order_type = BUY, createdAt = ''2023-12-01T08:00:00.000Z'',
              totalAmount = Num 100, paidTillNow = Some (Num 150)\<rparr>"

definition entity_example :: Entity where
  "entity_example = \<lparr>entity_id = ''e1'', isDefault = False,
                     orders = Some [order_C, order_B, order_D, order_A]\<rparr>"

text \<open>A form in its last step, with a cart, a payment and an error showing.\<close>

definition form_example :: CreateOrder where
  "form_example =
     \<lparr>formState =
        \<lparr>entity = Some \<lparr>entity_id = ''e1'', isDefault = False, orders = None\<rparr>,
         products = [\<lparr>productId = ''p1'', variantId = ''v1'', rate = Num 15, quantity = Num 3,
                      description = ''gift''\<rparr>],
         discount = Num 5,
         discountType = Percentage,
         discountPercentage = Num 10,
         charges = [],
         tax = Num 13,
         taxType = Percentage,
         taxPercentage = Num 13,
         form_description = ''draft'',
         orderDate = 1700000000000,
         payments = [\<lparr>accountId = ''a1'', payment_amount = Num 20\<rparr>],
         isPublic = True\<rparr>,
      currentStep = Summary,
      error = Some ''Stock validation failed'',
      loading = False\<rparr>"

section \<open>Properties of the Order Pricing Engine\<close>

text \<open>
  A NaN-guarded left fold that starts at a number is that number plus the sum of the terms,
  each \<^verbatim>\<open>NaN\<close> term counted as zero; in particular it is never \<^verbatim>\<open>NaN\<close>.
\<close>

lemma foldl_nan_safe:
  "foldl (\<lambda>sum x. js_add sum (if isNaN (f x) then Num 0 else f x)) (Num a) xs
     = Num (a + sum_list (map (\<lambda>x. num_val (f x)) xs))"
proof (induction xs arbitrary: a)
  case Nil
  show ?case by simp
next
  case (Cons x xs)
  show ?case
  proof (cases "f x")
    case NaN
    then show ?thesis using Cons.IH [of a] by simp
  next
    case (Num v)
    then show ?thesis using Cons.IH [of "a + v"] by (simp add: add.assoc)
  qed
qed

lemma sum_list_filter_if:
  "sum_list (map f (filter P xs)) = (\<Sum>x\<leftarrow>xs. if P x then f x else (0::real))"
  by (induction xs) auto

lemma sum_list_filter_not:
  "sum_list (map f (filter (\<lambda>x. \<not> P x) xs)) = (\<Sum>x\<leftarrow>xs. if P x then (0::real) else f x)"
  by (induction xs) auto


lemma calculateChargeAmount_sum:
  "calculateChargeAmount sub d cs
     = Num (\<Sum>c\<leftarrow>cs. if isPaidByBusiness c then 0 else charge_term (js_sub sub d) c)"
proof -
  let ?f = "\<lambda>c. if charge_type c = Percentage
                 then js_div (js_mul (js_sub sub d) (percentage c)) (Num 100)
                 else charge_amount c"
  have "calculateChargeAmount sub d cs
          = Num (0 + sum_list (map (\<lambda>c. num_val (?f c)) (filter (\<lambda>c. \<not> isPaidByBusiness c) cs)))"
    unfolding calculateChargeAmount_def Let_def by (rule foldl_nan_safe)
  also have "(\<lambda>c. num_val (?f c)) = charge_term (js_sub sub d)"
    by (rule ext) (simp add: charge_term_def)
  finally show ?thesis
    by (simp add: sum_list_filter_not)
qed

lemma calculateVendorCharges_sum:
  "calculateVendorCharges sub cs
     = Num (\<Sum>c\<leftarrow>cs. if isPaidByBusiness c then charge_term sub c else 0)"
proof -
  let ?f = "\<lambda>c. if charge_type c = Percentage
                 then js_div (js_mul sub (percentage c)) (Num 100)
                 else charge_amount c"
  have "calculateVendorCharges sub cs
          = Num (0 + sum_list (map (\<lambda>c. num_val (?f c)) (filter isPaidByBusiness cs)))"
    unfolding calculateVendorCharges_def Let_def by (rule foldl_nan_safe)
  also have "(\<lambda>c. num_val (?f c)) = charge_term sub"
    by (rule ext) (simp add: charge_term_def)
  finally show ?thesis
    by (simp add: sum_list_filter_if)
qed




text \<open>
  Claim C5. The charge amount is the sum, over the charges the business does not absorb, of
  \<open>(subTotal - discount) * percentage / 100\<close> for a percentage charge and of the amount for a
  fixed one; the vendor charges are the sum, over the charges the business absorbs, of
  \<open>subTotal * percentage / 100\<close>, without the discount, or of the fixed amount. A term that is
  \<^verbatim>\<open>NaN\<close> adds zero, so neither sum is ever \<^verbatim>\<open>NaN\<close>.
\<close>

theorem charge_buckets:
  "calculateChargeAmount sub d cs
     = Num (\<Sum>c\<leftarrow>cs. if isPaidByBusiness c then 0 else charge_term (js_sub sub d) c)
   \<and> calculateVendorCharges sub cs
     = Num (\<Sum>c\<leftarrow>cs. if isPaidByBusiness c then charge_term sub c else 0)
   \<and> (charge_type c = Percentage \<and> percentage c = Num p \<longrightarrow>
        charge_term (js_sub (Num s) (Num dv)) c = (s - dv) * p / 100
        \<and> charge_term (Num s) c = s * p / 100)
   \<and> (charge_type c = Fixed \<and> charge_amount c = Num a \<longrightarrow> charge_term base c = a)
   \<and> (charge_type c = Percentage \<and> (base = NaN \<or> percentage c = NaN) \<longrightarrow> charge_term base c = 0)
   \<and> (charge_type c = Fixed \<and> charge_amount c = NaN \<longrightarrow> charge_term base c = 0)"
proof (intro conjI impI)
  show "calculateChargeAmount sub d cs
     = Num (\<Sum>c\<leftarrow>cs. if isPaidByBusiness c then 0 else charge_term (js_sub sub d) c)"
    by (rule calculateChargeAmount_sum)
  show "calculateVendorCharges sub cs
     = Num (\<Sum>c\<leftarrow>cs. if isPaidByBusiness c then charge_term sub c else 0)"
    by (rule calculateVendorCharges_sum)
next
  assume "charge_type c = Percentage \<and> percentage c = Num p"
  then show "charge_term (js_sub (Num s) (Num dv)) c = (s - dv) * p / 100"
    and "charge_term (Num s) c = s * p / 100"
    by (simp_all add: charge_term_def)
next
  assume "charge_type c = Fixed \<and> charge_amount c = Num a"
  then show "charge_term base c = a" by (simp add: charge_term_def)
next
  assume "charge_type c = Percentage \<and> (base = NaN \<or> percentage c = NaN)"
  then show "charge_term base c = 0" by (cases base) (auto simp: charge_term_def)
next
  assume "charge_type c = Fixed \<and> charge_amount c = NaN"
  then show "charge_term base c = 0" by (simp add: charge_term_def)
qed

text \<open>
  A subtotal of 1000 with a discount of 100 and four charges: 5 percent billed to the
  counterparty (45), 2 percent absorbed by the business (20, on the undiscounted subtotal), a
  fixed 30 billed to the counterparty, and a percentage charge absorbed by the business whose
  percentage is \<^verbatim>\<open>NaN\<close> (0).
\<close>

theorem charge_buckets_witness:
  "charge_type \<lparr>charge_id = ''c1'', charge_name = ''service'', charge_amount = Num 0,
                charge_type = Percentage, percentage = Num 5, isPaidByBusiness = False\<rparr> = Percentage
   \<and> charge_term (js_sub (Num 1000) (Num 100))
        \<lparr>charge_id = ''c1'', charge_name = ''service'', charge_amount = Num 0,
         charge_type = Percentage, percentage = Num 5, isPaidByBusiness = False\<rparr> = 45
   \<and> charge_type \<lparr>charge_id = ''c3'', charge_name = ''delivery'', charge_amount = Num 30,
                  charge_type = Fixed, percentage = Num 0, isPaidByBusiness = False\<rparr> = Fixed
   \<and> charge_term (Num 900)
        \<lparr>charge_id = ''c3'', charge_name = ''delivery'', charge_amount = Num 30,
         charge_type = Fixed, percentage = Num 0, isPaidByBusiness = False\<rparr> = 30
   \<and> charge_term (Num 1000)
        \<lparr>charge_id = ''c4'', charge_name = ''broken'', charge_amount = Num 7,
         charge_type = Percentage, percentage = NaN, isPaidByBusiness = True\<rparr> = 0
   \<and> charge_term (Num 1000)
        \<lparr>charge_id = ''c5'', charge_name = ''blank'', charge_amount = NaN,
         charge_type = Fixed, percentage = Num 0, isPaidByBusiness = True\<rparr> = 0
   \<and> calculateChargeAmount (Num 1000) (Num 100)
        [\<lparr>charge_id = ''c1'', charge_name = ''service'', charge_amount = Num 0,
          charge_type = Percentage, percentage = Num 5, isPaidByBusiness = False\<rparr>,
         \<lparr>charge_id = ''c2'', charge_name = ''gateway'', charge_amount = Num 0,
          charge_type = Percentage, percentage = Num 2, isPaidByBusiness = True\<rparr>,
         \<lparr>charge_id = ''c3'', charge_name = ''delivery'', charge_amount = Num 30,
          charge_type = Fixed, percentage = Num 0, isPaidByBusiness = False\<rparr>,
         \<lparr>charge_id = ''c4'', charge_name = ''broken'', charge_amount = Num 7,
          charge_type = Percentage, percentage = NaN, isPaidByBusiness = True\<rparr>] = Num 75
   \<and> calculateVendorCharges (Num 1000)
        [\<lparr>charge_id = ''c1'', charge_name = ''service'', charge_amount = Num 0,
          charge_type = Percentage, percentage = Num 5, isPaidByBusiness = False\<rparr>,
         \<lparr>charge_id = ''c2'', charge_name = ''gateway'', charge_amount = Num 0,
          charge_type = Percentage, percentage = Num 2, isPaidByBusiness = True\<rparr>,
         \<lparr>charge_id = ''c3'', charge_name = ''delivery'', charge_amount = Num 30,
          charge_type = Fixed, percentage = Num 0, isPaidByBusiness = False\<rparr>,
         \<lparr>charge_id = ''c4'', charge_name = ''broken'', charge_amount = Num 7,
          charge_type = Percentage, percentage = NaN, isPaidByBusiness = True\<rparr>] = Num 20"
  using
    charge_buckets
      [of "Num 1000" "Num 100"
          "[\<lparr>charge_id = ''c1'', charge_name = ''service'', charge_amount = Num 0,
             charge_type = Percentage, percentage = Num 5, isPaidByBusiness = False\<rparr>,
            \<lparr>charge_id = ''c2'', charge_name = ''gateway'', charge_amount = Num 0,
             charge_type = Percentage, percentage = Num 2, isPaidByBusiness = True\<rparr>,
            \<lparr>charge_id = ''c3'', charge_name = ''delivery'', charge_amount = Num 30,
             charge_type = Fixed, percentage = Num 0, isPaidByBusiness = False\<rparr>,
            \<lparr>charge_id = ''c4'', charge_name = ''broken'', charge_amount = Num 7,
             charge_type = Percentage, percentage = NaN, isPaidByBusiness = True\<rparr>]"
          "\<lparr>charge_id = ''c1'', charge_name = ''service'', charge_amount = Num 0,
            charge_type = Percentage, percentage = Num 5, isPaidByBusiness = False\<rparr>"
          5 1000 100 0 "Num 900"]
    charge_buckets
      [of "Num 0" "Num 0" "[]"
          "\<lparr>charge_id = ''c3'', charge_name = ''delivery'', charge_amount = Num 30,
            charge_type = Fixed, percentage = Num 0, isPaidByBusiness = False\<rparr>"
          0 0 0 30 "Num 900"]
    charge_buckets
      [of "Num 0" "Num 0" "[]"
          "\<lparr>charge_id = ''c4'', charge_name = ''broken'', charge_amount = Num 7,
            charge_type = Percentage, percentage = NaN, isPaidByBusiness = True\<rparr>"
          0 0 0 0 "Num 1000"]
    charge_buckets
      [of "Num 0" "Num 0" "[]"
          "\<lparr>charge_id = ''c5'', charge_name = ''blank'', charge_amount = NaN,
            charge_type = Fixed, percentage = Num 0, isPaidByBusiness = True\<rparr>"
          0 0 0 0 "Num 1000"]
  by (simp add: charge_term_def)

section \<open>Properties of the FIFO Stock Ledger\<close>

lemma price_loop_cost: "price_loop es r tp = cost_of (consumed_loop es r) tp"
  by (induction es arbitrary: r tp) (simp_all add: cost_of_def Let_def)

lemma stock_fold:
  "foldl (\<lambda>total entry. js_add total (availableStock entry)) (Num a) es = Num s
   \<Longrightarrow> (\<forall>e\<in>set es. \<not> isNaN (availableStock e))
       \<and> s = a + (\<Sum>e\<leftarrow>es. num_val (availableStock e))"
proof (induction es arbitrary: a)
  case Nil
  then show ?case by simp
next
  case (Cons e es)
  show ?case
  proof (cases "availableStock e")
    case NaN
    have "foldl (\<lambda>total entry. js_add total (availableStock entry)) NaN es = NaN"
      by (induction es) simp_all
    with Cons.prems NaN show ?thesis by simp
  next
    case (Num v)
    with Cons.prems Cons.IH [of "a + v"] show ?thesis by (simp add: add.assoc)
  qed
qed

lemma consumed_loop_oldest_first:
  "\<exists>n. map fst (consumed_loop es r) = take n (filter has_stock es)"
proof (induction es arbitrary: r)
  case Nil
  show ?case by simp
next
  case (Cons e es)
  show ?case
  proof (cases "js_le (availableStock e) (Num 0)")
    case True
    then show ?thesis using Cons.IH [of r] by (simp add: has_stock_def)
  next
    case False
    let ?k = "js_min (availableStock e) r"
    show ?thesis
    proof (cases "js_le (js_sub r ?k) (Num 0)")
      case True
      with False have "map fst (consumed_loop (e # es) r) = take 1 (filter has_stock (e # es))"
        by (simp add: has_stock_def Let_def)
      then show ?thesis by blast
    next
      case nb: False
      obtain n where "map fst (consumed_loop es (js_sub r ?k)) = take n (filter has_stock es)"
        using Cons.IH by blast
      with False nb
      have "map fst (consumed_loop (e # es) r) = take (Suc n) (filter has_stock (e # es))"
        by (simp add: has_stock_def Let_def)
      then show ?thesis by blast
    qed
  qed
qed

lemma stock_le_positive:
  "(\<Sum>e\<leftarrow>es. num_val (availableStock e)) \<le> positive_stock es"
  unfolding positive_stock_def by (induction es) auto


lemma fifo_prefix_same_head:
  "fifo_prefix ((e, k) # t1) ((e, k) # t2) = (if t1 = [] then js_le k k else fifo_prefix t1 t2)"
  by (cases t1) simp_all

lemma consumed_loop_prefix:
  assumes "\<forall>e\<in>set es. \<not> isNaN (availableStock e)" and "0 < q1" and "q1 \<le> q2"
  shows "fifo_prefix (consumed_loop es (Num q1)) (consumed_loop es (Num q2))"
  using assms
proof (induction es arbitrary: q1 q2)
  case Nil
  show ?case by simp
next
  case (Cons e es)
  from Cons.prems(1) obtain a where a: "availableStock e = Num a"
    by (cases "availableStock e") auto
  from Cons.prems(1) have fin: "\<forall>e\<in>set es. \<not> isNaN (availableStock e)" by simp
  show ?case
  proof (cases "a \<le> 0")
    case True
    with a Cons.IH [OF fin Cons.prems(2,3)] show ?thesis by simp
  next
    case pos: False
    show ?thesis
    proof (cases "q1 \<le> a")
      case True
      with pos a Cons.prems(2,3) show ?thesis by (simp add: Let_def min_def)
    next
      case False
      with Cons.prems have gt: "0 < q1 - a" and le: "q1 - a \<le> q2 - a" by simp_all
      from Cons.IH [OF fin gt le] False pos a Cons.prems(3) show ?thesis
        by (simp add: Let_def min_def fifo_prefix_same_head)
    qed
  qed
qed



lemma round4_zero: "round4 0 = 0"
  by (simp add: round4_def)

lemma stock_of_queue:
  "getVariantStock (Some v)
     = foldl (\<lambda>total entry. js_add total (availableStock entry)) (Num 0) (queue_of v)"
  by (simp add: getVariantStock_def queue_of_def split: option.splits)

lemma consumed_run:
  "\<not> (js_le qty (Num 0) \<or> js_gt qty (getVariantStock (Some v)))
   \<Longrightarrow> consumed v qty = consumed_loop (queue_of v) qty"
  by (simp add: consumed_def queue_of_def split: option.splits)

lemma consumed_guard:
  "js_le qty (Num 0) \<or> js_gt qty (getVariantStock (Some v)) \<Longrightarrow> consumed v qty = []"
  by (simp add: consumed_def split: option.splits)

lemma price_via_consumed:
  "getVariantEstimatedPrice v qty
     = js_or (parseFloat_toFixed4 (js_div (cost_of (consumed v qty) (Num 0)) qty)) (Num 0)"
proof -
  have empty_cost: "js_or (parseFloat_toFixed4 (js_div (cost_of [] (Num 0)) qty)) (Num 0) = Num 0"
    by (cases qty) (simp_all add: cost_of_def round4_zero)
  show ?thesis
  proof (cases "stock_fifo_queue v")
    case None
    then have price: "getVariantEstimatedPrice v qty = Num 0"
      and trace: "consumed v qty = []"
      by (simp_all add: getVariantEstimatedPrice_def consumed_def)
    show ?thesis unfolding price trace empty_cost by (rule refl)
  next
    case (Some queue)
    show ?thesis
    proof (cases "js_le qty (Num 0) \<or> js_gt qty (getVariantStock (Some v))")
      case True
      with Some have price: "getVariantEstimatedPrice v qty = Num 0"
        and trace: "consumed v qty = []"
        by (simp_all add: getVariantEstimatedPrice_def consumed_def)
      show ?thesis unfolding price trace empty_cost by (rule refl)
    next
      case False
      with Some show ?thesis
        by (simp add: getVariantEstimatedPrice_def consumed_def price_loop_cost)
    qed
  qed
qed

lemma within_stock:
  assumes le: "js_le (Num q) (getVariantStock (Some v))"
  shows "(\<forall>e\<in>set (queue_of v). \<not> isNaN (availableStock e)) \<and> q \<le> positive_stock (queue_of v)
         \<and> \<not> js_gt (Num q) (getVariantStock (Some v))"
proof -
  from le obtain s where s: "getVariantStock (Some v) = Num s" and qs: "q \<le> s"
    by (cases "getVariantStock (Some v)") simp_all
  from s
  have "foldl (\<lambda>total entry. js_add total (availableStock entry)) (Num 0) (queue_of v) = Num s"
    by (simp add: stock_of_queue)
  from stock_fold [OF this]
  have fin: "\<forall>e\<in>set (queue_of v). \<not> isNaN (availableStock e)"
    and sum: "s = (\<Sum>e\<leftarrow>queue_of v. num_val (availableStock e))" by simp_all
  from sum qs stock_le_positive [of "queue_of v"] have "q \<le> positive_stock (queue_of v)" by simp
  with fin s qs show ?thesis by simp
qed

lemma example_queue: "queue_of variant_example = lots_example"
  by (simp add: queue_of_def variant_example_def)

lemma example_stock: "getVariantStock (Some variant_example) = Num 15"
  by (simp add: getVariantStock_def variant_example_def lots_example_def)

lemma example_consumed_8:
  "consumed variant_example (Num 8) =
     [(\<lparr>fifo_id = ''lot1'', estimatedPrice = Num 10, availableStock = Num 5\<rparr>, Num 5),
      (\<lparr>fifo_id = ''lot2'', estimatedPrice = Num 12, availableStock = Num 10\<rparr>, Num 3)]"
  by (simp add: consumed_def getVariantStock_def variant_example_def lots_example_def Let_def)

lemma example_consumed_3:
  "consumed variant_example (Num 3) =
     [(\<lparr>fifo_id = ''lot1'', estimatedPrice = Num 10, availableStock = Num 5\<rparr>, Num 3)]"
  by (simp add: consumed_def getVariantStock_def variant_example_def lots_example_def Let_def)




text \<open>
  Claim C4. For quantities \<open>q1 < q2\<close>, both within the variant's stock, what the walk
  consumes for \<open>q1\<close> is a FIFO prefix of what it consumes for \<open>q2\<close>: the same lots in the
  same order with the same quantities, only the last lot of \<open>q1\<close> possibly taken in part.
  Either consumption goes through the lots that hold stock in queue order without leaving
  one out, and it is what the price of that quantity is computed from.
\<close>

theorem fifo_monotone:
  "js_lt q1 q2 \<and> js_le q2 (getVariantStock (Some v)) \<longrightarrow>
     fifo_prefix (consumed v q1) (consumed v q2)
     \<and> (\<exists>n. map fst (consumed v q1) = take n (filter has_stock (queue_of v)))
     \<and> (\<exists>n. map fst (consumed v q2) = take n (filter has_stock (queue_of v)))
     \<and> getVariantEstimatedPrice v q1
         = js_or (parseFloat_toFixed4 (js_div (cost_of (consumed v q1) (Num 0)) q1)) (Num 0)
     \<and> getVariantEstimatedPrice v q2
         = js_or (parseFloat_toFixed4 (js_div (cost_of (consumed v q2) (Num 0)) q2)) (Num 0)"
proof (intro impI conjI)
  assume hyp: "js_lt q1 q2 \<and> js_le q2 (getVariantStock (Some v))"
  then obtain a b where q1: "q1 = Num a" and q2: "q2 = Num b" and ab: "a < b"
    by (cases q1; cases q2) simp_all
  from hyp q2 have le: "js_le (Num b) (getVariantStock (Some v))" by simp
  from within_stock [OF le]
  have fin: "\<forall>e\<in>set (queue_of v). \<not> isNaN (availableStock e)"
    and ngt2: "\<not> js_gt (Num b) (getVariantStock (Some v))" by simp_all
  from le ab have ngt1: "\<not> js_gt (Num a) (getVariantStock (Some v))"
    by (cases "getVariantStock (Some v)") simp_all
  show "fifo_prefix (consumed v q1) (consumed v q2)"
  proof (cases "0 < a")
    case True
    with ab ngt1 ngt2
    have "consumed v q1 = consumed_loop (queue_of v) (Num a)"
      and "consumed v q2 = consumed_loop (queue_of v) (Num b)"
      by (simp_all add: consumed_run q1 q2)
    with consumed_loop_prefix [OF fin True, of b] ab show ?thesis by simp
  next
    case False
    then have "consumed v q1 = []" by (simp add: consumed_guard q1)
    then show ?thesis by simp
  qed
  have any: "\<exists>n. map fst (consumed v r) = take n (filter has_stock (queue_of v))" for r
  proof (cases "js_le r (Num 0) \<or> js_gt r (getVariantStock (Some v))")
    case True
    then have "map fst (consumed v r) = take 0 (filter has_stock (queue_of v))"
      by (simp add: consumed_guard)
    then show ?thesis by blast
  next
    case False
    then have "consumed v r = consumed_loop (queue_of v) r" by (rule consumed_run)
    with consumed_loop_oldest_first [of "queue_of v" r] show ?thesis by simp
  qed
  show "\<exists>n. map fst (consumed v q1) = take n (filter has_stock (queue_of v))" by (rule any)
  show "\<exists>n. map fst (consumed v q2) = take n (filter has_stock (queue_of v))" by (rule any)
  show "getVariantEstimatedPrice v q1
         = js_or (parseFloat_toFixed4 (js_div (cost_of (consumed v q1) (Num 0)) q1)) (Num 0)"
    by (rule price_via_consumed)
  show "getVariantEstimatedPrice v q2
         = js_or (parseFloat_toFixed4 (js_div (cost_of (consumed v q2) (Num 0)) q2)) (Num 0)"
    by (rule price_via_consumed)
qed

text \<open>3 units take 3 of the first lot; 8 units take all 5 of it and 3 of the second.\<close>

theorem fifo_monotone_witness:
  "js_lt (Num 3) (Num 8)
   \<and> js_le (Num 8) (getVariantStock (Some variant_example))
   \<and> queue_of variant_example = lots_example
   \<and> consumed variant_example (Num 3) =
       [(\<lparr>fifo_id = ''lot1'', estimatedPrice = Num 10, availableStock = Num 5\<rparr>, Num 3)]
   \<and> consumed variant_example (Num 8) =
       [(\<lparr>fifo_id = ''lot1'', estimatedPrice = Num 10, availableStock = Num 5\<rparr>, Num 5),
        (\<lparr>fifo_id = ''lot2'', estimatedPrice = Num 12, availableStock = Num 10\<rparr>, Num 3)]
   \<and> fifo_prefix (consumed variant_example (Num 3)) (consumed variant_example (Num 8))"
proof -
  have lt: "js_lt (Num 3) (Num 8)" by simp
  have within: "js_le (Num 8) (getVariantStock (Some variant_example))"
    by (simp add: example_stock)
  from fifo_monotone [of "Num 3" "Num 8" variant_example] lt within
  have "fifo_prefix (consumed variant_example (Num 3)) (consumed variant_example (Num 8))"
    by blast
  with example_queue lt within example_consumed_3 example_consumed_8 show ?thesis by blast
qed

section \<open>Properties of the entity ledger and the Settlement Reducer\<close>

lemma mset_insert_by: "mset (insert_by cmp x ys) = add_mset x (mset ys)"
  by (induction ys) simp_all

lemma mset_sort_by: "mset (sort_by cmp xs) = mset xs"
  unfolding sort_by_def by (induction xs) (simp_all add: mset_insert_by)






lemma ordersToProcess_mset: "mset (ordersToProcess e) = mset (outstanding e)"
  by (simp add: ordersToProcess_def outstanding_def mset_sort_by split: option.splits)

lemma ordersToProcess_positive:
  "x \<in> set (ordersToProcess e) \<Longrightarrow> js_gt (calculateOrderRemaining x) (Num 0)"
proof -
  assume "x \<in> set (ordersToProcess e)"
  then have "x \<in># mset (ordersToProcess e)" by simp
  then have "x \<in> set (outstanding e)" unfolding ordersToProcess_mset by simp
  then show ?thesis by (simp add: outstanding_def)
qed






lemma pay_loop_ids:
  "a \<in> set (pay_loop acc os r xs) \<Longrightarrow> a \<in> set xs \<or> (\<exists>x\<in>set os. alloc_orderId a = order_id x)"
proof (induction os arbitrary: r xs)
  case Nil
  then show ?case by simp
next
  case (Cons order os)
  show ?case
  proof (cases "js_le r (Num 0)")
    case True
    with Cons.prems show ?thesis by simp
  next
    case nr: False
    show ?thesis
    proof (cases "js_le (calculateOrderRemaining order) (Num 0)")
      case True
      with nr Cons.prems have "a \<in> set (pay_loop acc os r xs)" by simp
      from Cons.IH [OF this] show ?thesis by auto
    next
      case False
      let ?k = "js_min r (calculateOrderRemaining order)"
      let ?xs = "if js_gt ?k (Num 0)
                 then xs @ [\<lparr>alloc_orderId = order_id order, alloc_accountId = acc, alloc_amount = ?k\<rparr>]
                 else xs"
      from nr False Cons.prems have "a \<in> set (pay_loop acc os (js_sub r ?k) ?xs)"
        by (simp add: Let_def)
      from Cons.IH [OF this] show ?thesis by (auto split: if_splits)
    qed
  qed
qed



lemma example_remaining:
  "calculateOrderRemaining order_A = Num 300" "calculateOrderRemaining order_B = Num 500"
  "calculateOrderRemaining order_C = Num 50" "calculateOrderRemaining order_D = Num (- 50)"
  by (simp_all add: calculateOrderRemaining_def calculateOrderPaidAmount_def
      order_A_def order_B_def order_C_def order_D_def)

lemma example_ids:
  "order_id order_A = ''A''" "order_id order_B = ''B''" "order_id order_C = ''C''"
  by (simp_all add: order_A_def order_B_def order_C_def)

lemma example_compare:
  "compareOrders order_B order_A = 1" "compareOrders order_C order_A = 1"
  "compareOrders order_C order_B = 1"
  by (simp_all add: compareOrders_def localeCompare_def order_A_def order_B_def order_C_def
      less_char_def)

lemma example_process: "ordersToProcess entity_example = [order_A, order_B, order_C]"
  by (simp add: ordersToProcess_def entity_example_def example_remaining sort_by_def
      example_compare)


lemma example_pay_1000:
  "handleAddPayment entity_example (Num 1000) ''cash'' =
       [\<lparr>alloc_orderId = ''A'', alloc_accountId = ''cash'', alloc_amount = Num 300\<rparr>,
        \<lparr>alloc_orderId = ''B'', alloc_accountId = ''cash'', alloc_amount = Num 500\<rparr>,
        \<lparr>alloc_orderId = ''C'', alloc_accountId = ''cash'', alloc_amount = Num 50\<rparr>]"
  by (simp add: handleAddPayment_def example_process example_remaining example_ids Let_def)




text \<open>
  Claim C8, as the code has it. The remaining amount of an order is its total amount minus
  what was paid till now, a missing, zero or \<^verbatim>\<open>NaN\<close> \<^verbatim>\<open>paidTillNow\<close> counting as 0, and it is
  not clamped: it is negative exactly when more was paid than the total. The Settlement
  Reducer processes only orders whose remaining amount is above zero, and every allocation
  goes to such an order.
\<close>

theorem order_remaining:
  "calculateOrderRemaining ord
     = js_sub (totalAmount ord)
              (case paidTillNow ord of None \<Rightarrow> Num 0 | Some paid \<Rightarrow> js_or paid (Num 0))
   \<and> (totalAmount ord = Num t \<and> paidTillNow ord = Some (Num p) \<longrightarrow>
        calculateOrderRemaining ord = Num (t - p)
        \<and> (js_lt (calculateOrderRemaining ord) (Num 0) \<longleftrightarrow> t < p))
   \<and> (\<forall>x\<in>set (ordersToProcess e). js_gt (calculateOrderRemaining x) (Num 0))
   \<and> (\<forall>a\<in>set (handleAddPayment e amount acc).
         \<exists>x\<in>set (ordersToProcess e).
           alloc_orderId a = order_id x \<and> js_gt (calculateOrderRemaining x) (Num 0))"
proof (intro conjI impI ballI)
  show "calculateOrderRemaining ord
     = js_sub (totalAmount ord)
              (case paidTillNow ord of None \<Rightarrow> Num 0 | Some paid \<Rightarrow> js_or paid (Num 0))"
    by (simp add: calculateOrderRemaining_def calculateOrderPaidAmount_def)
next
  assume "totalAmount ord = Num t \<and> paidTillNow ord = Some (Num p)"
  then show "calculateOrderRemaining ord = Num (t - p)"
    and "js_lt (calculateOrderRemaining ord) (Num 0) \<longleftrightarrow> t < p"
    by (simp_all add: calculateOrderRemaining_def calculateOrderPaidAmount_def)
next
  fix x assume "x \<in> set (ordersToProcess e)"
  then show "js_gt (calculateOrderRemaining x) (Num 0)" by (rule ordersToProcess_positive)
next
  fix a assume a: "a \<in> set (handleAddPayment e amount acc)"
  then have "a \<in> set (pay_loop acc (ordersToProcess e) amount [])"
    by (simp add: handleAddPayment_def split: if_splits)
  from pay_loop_ids [OF this] obtain x where "x \<in> set (ordersToProcess e)"
    and "alloc_orderId a = order_id x" by auto
  with ordersToProcess_positive [of x e]
  show "\<exists>x\<in>set (ordersToProcess e).
           alloc_orderId a = order_id x \<and> js_gt (calculateOrderRemaining x) (Num 0)"
    by blast
qed

text \<open>
  Order D was paid 150 on a total of 100: its remaining amount is -50, and a payment that
  covers everything outstanding allocates nothing to it.
\<close>

theorem order_remaining_witness:
  "totalAmount order_D = Num 100 \<and> paidTillNow order_D = Some (Num 150)
   \<and> calculateOrderRemaining order_D = Num (- 50)
   \<and> js_lt (calculateOrderRemaining order_D) (Num 0)
   \<and> order_D \<in> set (case orders entity_example of None \<Rightarrow> [] | Some os \<Rightarrow> os)
   \<and> ordersToProcess entity_example = [order_A, order_B, order_C]
   \<and> handleAddPayment entity_example (Num 1000) ''cash'' =
       [\<lparr>alloc_orderId = ''A'', alloc_accountId = ''cash'', alloc_amount = Num 300\<rparr>,
        \<lparr>alloc_orderId = ''B'', alloc_accountId = ''cash'', alloc_amount = Num 500\<rparr>,
        \<lparr>alloc_orderId = ''C'', alloc_accountId = ''cash'', alloc_amount = Num 50\<rparr>]"
proof -
  have fields: "totalAmount order_D = Num 100 \<and> paidTillNow order_D = Some (Num 150)"
    by (simp add: order_D_def)
  have listed: "order_D \<in> set (case orders entity_example of None \<Rightarrow> [] | Some os \<Rightarrow> os)"
    by (simp add: entity_example_def)
  from order_remaining [of order_D 100 150 entity_example "Num 1000" "''cash''"] fields
  have "calculateOrderRemaining order_D = Num (100 - 150)
        \<and> (js_lt (calculateOrderRemaining order_D) (Num 0) \<longleftrightarrow> (100::real) < 150)"
    by blast
  then have "calculateOrderRemaining order_D = Num (- 50)
             \<and> js_lt (calculateOrderRemaining order_D) (Num 0)"
    by simp
  with fields listed example_process example_pay_1000 show ?thesis by blast
qed

text \<open>The remaining amount of an order paid 150 on a total of 100 is -50, which is below 0.\<close>

theorem order_remaining_counterexample:
  "calculateOrderRemaining
     \<lparr>order_id = ''D'', order_type = BUY, createdAt = ''2023-12-01T08:00:00.000Z'',
      totalAmount = Num 100, paidTillNow = Some (Num 150)\<rparr> = Num (- 50)
   \<and> \<not> js_le (Num 0)
         (calculateOrderRemaining
            \<lparr>order_id = ''D'', order_type = BUY, createdAt = ''2023-12-01T08:00:00.000Z'',
             totalAmount = Num 100, paidTillNow = Some (Num 150)\<rparr>)"
  by (simp add: calculateOrderRemaining_def calculateOrderPaidAmount_def)

section \<open>Properties of Stock Validation and Balance Validation\<close>

lemma foldl_push: "foldl (\<lambda>errs line. errs @ f line) acc xs = acc @ concat (map f xs)"
  by (induction xs arbitrary: acc) simp_all

lemma stock_errors_concat:
  "errors (validateProductQuantities str SELL ps items)
     = concat (map (stock_line_errors str ps) (enumerate 0 items))"
proof -
  have step: "(\<lambda>errs (index, item).
                 case variantMap ps (variantId item) of
                   None \<Rightarrow> errs
                 | Some variant \<Rightarrow>
                     if js_gt (quantity item) (getVariantStock (Some variant))
                     then errs @ [stock_error str ps index item variant]
                     else errs)
              = (\<lambda>errs line. errs @ stock_line_errors str ps line)"
    by (intro ext) (simp add: stock_line_errors_def split: prod.splits option.splits)
  show ?thesis
    unfolding validateProductQuantities_def Let_def step
    by (simp add: foldl_push)
qed

lemma balance_errors_concat:
  "errors (validateAccountBalances str toFixed2 pays accounts BUY)
     = concat (map (balance_line_errors str toFixed2 accounts) (enumerate 0 pays))"
proof -
  have step: "(\<lambda>errs (index, payment).
                 case accountMap accounts (accountId payment) of
                   None \<Rightarrow> errs
                 | Some account \<Rightarrow>
                     if js_gt (payment_amount payment) (balance account)
                     then errs @ [balance_error str toFixed2 index payment account]
                     else errs)
              = (\<lambda>errs line. errs @ balance_line_errors str toFixed2 accounts line)"
    by (intro ext) (simp add: balance_line_errors_def split: prod.splits option.splits)
  show ?thesis
    unfolding validateAccountBalances_def Let_def step
    by (simp add: foldl_push)
qed

lemma length_concat_lines:
  assumes "\<And>line. length (f line) = (if P (snd line) then 1 else 0)"
  shows "length (concat (map f (enumerate n xs))) = length (filter P xs)"
  using assms by (induction xs arbitrary: n) simp_all

lemma stock_line_length:
  "length (stock_line_errors str ps line) = (if exceeds_stock ps (snd line) then 1 else 0)"
  by (simp add: stock_line_errors_def exceeds_stock_def split: option.splits)

lemma balance_line_length:
  "length (balance_line_errors str toFixed2 accounts line)
     = (if exceeds_balance accounts (snd line) then 1 else 0)"
  by (simp add: balance_line_errors_def exceeds_balance_def split: option.splits)

lemma isValid_errors_stock:
  "isValid (validateProductQuantities str otype ps items)
     = (errors (validateProductQuantities str otype ps items) = [])"
  by (simp add: validateProductQuantities_def Let_def)

lemma isValid_errors_balance:
  "isValid (validateAccountBalances str toFixed2 pays accounts otype)
     = (errors (validateAccountBalances str toFixed2 pays accounts otype) = [])"
  by (simp add: validateAccountBalances_def Let_def)

lemma filter_empty_iff: "(length (filter P xs) = 0) = (\<not> (\<exists>x\<in>set xs. P x))"
  by (simp add: filter_empty_conv)

lemma example_variantMap: "variantMap [product_example] ''v1'' = Some variant_example"
  by (simp add: variantMap_def product_example_def variant_example_def)

lemma example_productMap: "productMap [product_example] ''p1'' = Some product_example"
  by (simp add: productMap_def product_example_def)

lemma example_names:
  "product_name product_example = ''Shirt''" "variant_name variant_example = ''Shirt-M''"
  by (simp_all add: product_example_def variant_example_def)

lemma example_exceeds:
  "exceeds_stock [product_example] line_over" "\<not> exceeds_stock [product_example] line_ok"
  by (simp_all add: exceeds_stock_def line_over_def line_ok_def example_variantMap example_stock)

lemma example_stock_errors:
  "validateProductQuantities print_example SELL [product_example] [line_ok, line_over]
     = \<lparr>isValid = False,
        errors = [''Item #2 (Shirt - Shirt-M): Quantity (20) exceeds available stock (15).'']\<rparr>"
  by (simp add: validateProductQuantities_def enumerate_eq_zip line_over_def line_ok_def
      example_variantMap example_productMap example_stock stock_error_def print_example_def
      example_names upt_rec)

lemma example_stock_buy:
  "validateProductQuantities print_example BUY [product_example] [line_ok, line_over]
     = \<lparr>isValid = True, errors = []\<rparr>"
  by (simp add: validateProductQuantities_def)

text \<open>
  The three maps are lookups of the last element with the key: \<^verbatim>\<open>new Map\<close> keeps the last pair
  of a key that occurs twice.
\<close>

lemma map_of_keyed: "map_of (map (\<lambda>x. (key x, x)) xs) k = find (\<lambda>x. key x = k) xs"
  by (induction xs) simp_all

lemma map_of_rev_keyed:
  "map_of (rev (map (\<lambda>x. (key x, x)) xs)) k = find (\<lambda>x. key x = k) (rev xs)"
  by (simp add: rev_map map_of_keyed)

lemma variantMap_find:
  "variantMap ps k = find (\<lambda>v. variant_id v = k) (rev (all_variants ps))"
proof -
  have "concat (map (\<lambda>p. case variants p of None \<Rightarrow> []
                         | Some vs \<Rightarrow> map (\<lambda>v. (variant_id v, v)) vs) ps)
          = map (\<lambda>v. (variant_id v, v)) (all_variants ps)"
    by (induction ps) (simp_all add: all_variants_def split: option.splits)
  then show ?thesis
    unfolding variantMap_def by (simp add: map_of_rev_keyed)
qed

lemma productMap_find: "productMap ps k = find (\<lambda>p. product_id p = k) (rev ps)"
  unfolding productMap_def by (rule map_of_rev_keyed)

lemma accountMap_find: "accountMap accounts k = find (\<lambda>a. account_id a = k) (rev accounts)"
  unfolding accountMap_def by (rule map_of_rev_keyed)

lemma set_all_variants:
  "v \<in> set (all_variants ps) \<longleftrightarrow> (\<exists>p\<in>set ps. \<exists>vs. variants p = Some vs \<and> v \<in> set vs)"
  by (induction ps) (auto simp: all_variants_def split: option.splits)

lemma find_in_set: "find P xs = Some a \<Longrightarrow> a \<in> set xs \<and> P a"
  by (induction xs) (auto split: if_splits)

lemma getVariantStock_fold:
  "getVariantStock (Some v) = foldl js_add (Num 0) (map availableStock (queue_of v))"
  by (simp add: getVariantStock_def queue_of_def foldl_map split: option.splits)

lemma example_all_variants: "all_variants [product_example] = [variant_example]"
  by (simp add: all_variants_def product_example_def)

lemma orphan_stock:
  "getVariantStock (Some \<lparr>variant_id = ''v7'', variant_name = ''Medium'', price = Num 15,
                         buyPrice = Num 9, stock_fifo_queue = Some lots_example\<rparr>) = Num 15"
  by (simp add: getVariantStock_def lots_example_def)

text \<open>
  Claim C6, as the code has it. For an order type other than SELL the result is valid with no
  errors. For a SELL order the result is invalid exactly when some line item is offending:
  its \<^verbatim>\<open>variantId\<close> is the identifier of a variant of the catalogue (the last such variant),
  and its quantity is strictly above that variant's stock, the sum of \<^verbatim>\<open>availableStock\<close> over
  its queue. The errors are the messages of the offending line items, one each, in cart
  order. The message of such a line contains the variant's name, the requested quantity and
  the stock; it contains the name of the product that the line's \<^verbatim>\<open>productId\<close> resolves to,
  and \<^verbatim>\<open>undefined\<close> in its place when the catalogue has no product with that identifier.
\<close>

theorem stock_validation:
  "(otype \<noteq> SELL \<longrightarrow>
      validateProductQuantities str otype ps items = \<lparr>isValid = True, errors = []\<rparr>)
   \<and> (isValid (validateProductQuantities str otype ps items)
        \<longleftrightarrow> errors (validateProductQuantities str otype ps items) = [])
   \<and> (\<not> isValid (validateProductQuantities str SELL ps items)
        \<longleftrightarrow> (\<exists>item\<in>set items. exceeds_stock ps item))
   \<and> errors (validateProductQuantities str SELL ps items)
       = concat (map (stock_line_errors str ps) (enumerate 0 items))
   \<and> length (errors (validateProductQuantities str SELL ps items))
       = length (filter (exceeds_stock ps) items)
   \<and> variantMap ps k = find (\<lambda>w. variant_id w = k) (rev (all_variants ps))
   \<and> productMap ps k = find (\<lambda>p. product_id p = k) (rev ps)
   \<and> (v \<in> set (all_variants ps) \<longleftrightarrow> (\<exists>p\<in>set ps. \<exists>vs. variants p = Some vs \<and> v \<in> set vs))
   \<and> getVariantStock (Some v) = foldl js_add (Num 0) (map availableStock (queue_of v))
   \<and> (exceeds_stock ps item \<longleftrightarrow>
        (\<exists>variant. find (\<lambda>w. variant_id w = variantId item) (rev (all_variants ps)) = Some variant
           \<and> js_gt (quantity item) (getVariantStock (Some variant))))
   \<and> (exceeds_stock ps item \<longrightarrow>
        (\<exists>variant. variantMap ps (variantId item) = Some variant
           \<and> variant \<in> set (all_variants ps) \<and> variant_id variant = variantId item
           \<and> js_gt (quantity item) (getVariantStock (Some variant))
           \<and> stock_line_errors str ps (index, item) = [stock_error str ps index item variant]
           \<and> (\<forall>product. productMap ps (productId item) = Some product \<longrightarrow>
                product \<in> set ps \<and> product_id product = productId item
                \<and> (\<exists>a b c d f. stock_error str ps index item variant
                      = a @ product_name product @ b @ variant_name variant @ c
                          @ str (quantity item) @ d @ str (getVariantStock (Some variant)) @ f))
           \<and> (productMap ps (productId item) = None \<longrightarrow>
                (\<forall>p\<in>set ps. product_id p \<noteq> productId item)
                \<and> (\<exists>a b c d f. stock_error str ps index item variant
                      = a @ ''undefined'' @ b @ variant_name variant @ c
                          @ str (quantity item) @ d @ str (getVariantStock (Some variant)) @ f))))
   \<and> (\<not> exceeds_stock ps item \<longrightarrow> stock_line_errors str ps (index, item) = [])"
proof (intro conjI)
  show "otype \<noteq> SELL \<longrightarrow>
      validateProductQuantities str otype ps items = \<lparr>isValid = True, errors = []\<rparr>"
    by (simp add: validateProductQuantities_def)
  show "isValid (validateProductQuantities str otype ps items)
        \<longleftrightarrow> errors (validateProductQuantities str otype ps items) = []"
    by (rule isValid_errors_stock)
  show count: "length (errors (validateProductQuantities str SELL ps items))
       = length (filter (exceeds_stock ps) items)"
    unfolding stock_errors_concat
    by (rule length_concat_lines) (rule stock_line_length)
  have "\<not> isValid (validateProductQuantities str SELL ps items)
          \<longleftrightarrow> length (errors (validateProductQuantities str SELL ps items)) \<noteq> 0"
    unfolding isValid_errors_stock by simp
  then show "\<not> isValid (validateProductQuantities str SELL ps items)
        \<longleftrightarrow> (\<exists>item\<in>set items. exceeds_stock ps item)"
    unfolding count filter_empty_iff by simp
  show "errors (validateProductQuantities str SELL ps items)
       = concat (map (stock_line_errors str ps) (enumerate 0 items))"
    by (rule stock_errors_concat)
  show "variantMap ps k = find (\<lambda>w. variant_id w = k) (rev (all_variants ps))"
    by (rule variantMap_find)
  show "productMap ps k = find (\<lambda>p. product_id p = k) (rev ps)"
    by (rule productMap_find)
  show "v \<in> set (all_variants ps) \<longleftrightarrow> (\<exists>p\<in>set ps. \<exists>vs. variants p = Some vs \<and> v \<in> set vs)"
    by (rule set_all_variants)
  show "getVariantStock (Some v) = foldl js_add (Num 0) (map availableStock (queue_of v))"
    by (rule getVariantStock_fold)
  show "exceeds_stock ps item \<longleftrightarrow>
        (\<exists>variant. find (\<lambda>w. variant_id w = variantId item) (rev (all_variants ps)) = Some variant
           \<and> js_gt (quantity item) (getVariantStock (Some variant)))"
    by (simp add: exceeds_stock_def variantMap_find split: option.splits)
  show "\<not> exceeds_stock ps item \<longrightarrow> stock_line_errors str ps (index, item) = []"
    by (auto simp: stock_line_errors_def exceeds_stock_def split: option.splits)
  show "exceeds_stock ps item \<longrightarrow>
        (\<exists>variant. variantMap ps (variantId item) = Some variant
           \<and> variant \<in> set (all_variants ps) \<and> variant_id variant = variantId item
           \<and> js_gt (quantity item) (getVariantStock (Some variant))
           \<and> stock_line_errors str ps (index, item) = [stock_error str ps index item variant]
           \<and> (\<forall>product. productMap ps (productId item) = Some product \<longrightarrow>
                product \<in> set ps \<and> product_id product = productId item
                \<and> (\<exists>a b c d f. stock_error str ps index item variant
                      = a @ product_name product @ b @ variant_name variant @ c
                          @ str (quantity item) @ d @ str (getVariantStock (Some variant)) @ f))
           \<and> (productMap ps (productId item) = None \<longrightarrow>
                (\<forall>p\<in>set ps. product_id p \<noteq> productId item)
                \<and> (\<exists>a b c d f. stock_error str ps index item variant
                      = a @ ''undefined'' @ b @ variant_name variant @ c
                          @ str (quantity item) @ d @ str (getVariantStock (Some variant)) @ f)))"
  proof
    assume ex: "exceeds_stock ps item"
    then obtain variant where v: "variantMap ps (variantId item) = Some variant"
      and gt: "js_gt (quantity item) (getVariantStock (Some variant))"
      by (auto simp: exceeds_stock_def split: option.splits)
    from v have found: "variant \<in> set (all_variants ps)" "variant_id variant = variantId item"
      unfolding variantMap_find by (auto dest: find_in_set)
    have named: "\<forall>product. productMap ps (productId item) = Some product \<longrightarrow>
                product \<in> set ps \<and> product_id product = productId item
                \<and> (\<exists>a b c d f. stock_error str ps index item variant
                      = a @ product_name product @ b @ variant_name variant @ c
                          @ str (quantity item) @ d @ str (getVariantStock (Some variant)) @ f)"
    proof (intro allI impI)
      fix product assume p: "productMap ps (productId item) = Some product"
      then have inp: "product \<in> set ps \<and> product_id product = productId item"
        unfolding productMap_find by (auto dest: find_in_set)
      have "stock_error str ps index item variant
              = (''Item #'' @ str (Num (real (index + 1))) @ '' ('') @ product_name product
                @ '' - '' @ variant_name variant @ ''): Quantity ('' @ str (quantity item)
                @ '') exceeds available stock ('' @ str (getVariantStock (Some variant)) @ '').''"
        by (simp add: stock_error_def p)
      then have "\<exists>a b c d f. stock_error str ps index item variant
                     = a @ product_name product @ b @ variant_name variant @ c
                         @ str (quantity item) @ d @ str (getVariantStock (Some variant)) @ f"
        by blast
      with inp show "product \<in> set ps \<and> product_id product = productId item
                \<and> (\<exists>a b c d f. stock_error str ps index item variant
                      = a @ product_name product @ b @ variant_name variant @ c
                          @ str (quantity item) @ d @ str (getVariantStock (Some variant)) @ f)"
        by blast
    qed
    have unnamed: "productMap ps (productId item) = None \<longrightarrow>
                (\<forall>p\<in>set ps. product_id p \<noteq> productId item)
                \<and> (\<exists>a b c d f. stock_error str ps index item variant
                      = a @ ''undefined'' @ b @ variant_name variant @ c
                          @ str (quantity item) @ d @ str (getVariantStock (Some variant)) @ f)"
    proof
      assume p: "productMap ps (productId item) = None"
      then have no: "\<forall>p\<in>set ps. product_id p \<noteq> productId item"
        unfolding productMap_find by (simp add: find_None_iff)
      have "stock_error str ps index item variant
              = (''Item #'' @ str (Num (real (index + 1))) @ '' ('') @ ''undefined''
                @ '' - '' @ variant_name variant @ ''): Quantity ('' @ str (quantity item)
                @ '') exceeds available stock ('' @ str (getVariantStock (Some variant)) @ '').''"
        by (simp add: stock_error_def p)
      then have "\<exists>a b c d f. stock_error str ps index item variant
                     = a @ ''undefined'' @ b @ variant_name variant @ c
                         @ str (quantity item) @ d @ str (getVariantStock (Some variant)) @ f"
        by blast
      with no show "(\<forall>p\<in>set ps. product_id p \<noteq> productId item)
                \<and> (\<exists>a b c d f. stock_error str ps index item variant
                      = a @ ''undefined'' @ b @ variant_name variant @ c
                          @ str (quantity item) @ d @ str (getVariantStock (Some variant)) @ f)"
        by blast
    qed
    from v gt
    have line: "stock_line_errors str ps (index, item) = [stock_error str ps index item variant]"
      by (simp add: stock_line_errors_def)
    show "\<exists>variant. variantMap ps (variantId item) = Some variant
           \<and> variant \<in> set (all_variants ps) \<and> variant_id variant = variantId item
           \<and> js_gt (quantity item) (getVariantStock (Some variant))
           \<and> stock_line_errors str ps (index, item) = [stock_error str ps index item variant]
           \<and> (\<forall>product. productMap ps (productId item) = Some product \<longrightarrow>
                product \<in> set ps \<and> product_id product = productId item
                \<and> (\<exists>a b c d f. stock_error str ps index item variant
                      = a @ product_name product @ b @ variant_name variant @ c
                          @ str (quantity item) @ d @ str (getVariantStock (Some variant)) @ f))
           \<and> (productMap ps (productId item) = None \<longrightarrow>
                (\<forall>p\<in>set ps. product_id p \<noteq> productId item)
                \<and> (\<exists>a b c d f. stock_error str ps index item variant
                      = a @ ''undefined'' @ b @ variant_name variant @ c
                          @ str (quantity item) @ d @ str (getVariantStock (Some variant)) @ f))"
      by (intro exI [of _ variant] conjI) (fact v found gt line named unnamed)+
  qed
qed

text \<open>A cart with 3 and 20 units of a variant that has 15 in stock.\<close>

theorem stock_validation_witness:
  "BUY \<noteq> SELL
   \<and> validateProductQuantities print_example BUY [product_example] [line_ok, line_over]
       = \<lparr>isValid = True, errors = []\<rparr>
   \<and> all_variants [product_example] = [variant_example]
   \<and> variantMap [product_example] (variantId line_over) = Some variant_example
   \<and> productMap [product_example] (productId line_over) = Some product_example
   \<and> getVariantStock (Some variant_example) = Num 15
   \<and> exceeds_stock [product_example] line_over
   \<and> \<not> exceeds_stock [product_example] line_ok
   \<and> validateProductQuantities print_example SELL [product_example] [line_ok, line_over]
       = \<lparr>isValid = False,
          errors = [''Item #2 (Shirt - Shirt-M): Quantity (20) exceeds available stock (15).'']\<rparr>
   \<and> length (errors (validateProductQuantities print_example SELL [product_example]
                        [line_ok, line_over])) = 1"
proof -
  have "length (errors (validateProductQuantities print_example SELL [product_example]
                          [line_ok, line_over]))
          = length (filter (exceeds_stock [product_example]) [line_ok, line_over])"
    using stock_validation [where otype = BUY and str = print_example
        and ps = "[product_example]" and items = "[line_ok, line_over]" and item = line_over
        and index = 1 and k = "''v1''" and v = variant_example]
    by blast
  then have "length (errors (validateProductQuantities print_example SELL [product_example]
                        [line_ok, line_over])) = 1"
    by (simp add: example_exceeds)
  moreover have "variantMap [product_example] (variantId line_over) = Some variant_example"
    "productMap [product_example] (productId line_over) = Some product_example"
    by (simp_all add: line_over_def example_variantMap example_productMap)
  ultimately show ?thesis
    using example_exceeds example_stock_errors example_stock_buy example_all_variants example_stock
    by simp
qed

text \<open>
  An offending line whose \<^verbatim>\<open>productId\<close> is not in the catalogue: its message has
  \<^verbatim>\<open>undefined\<close> where the product name would be, and the name of the product that holds the
  variant occurs nowhere in it.
\<close>

theorem stock_validation_counterexample:
  "map product_name catalogue_orphan = [''Shirt'']
   \<and> productMap catalogue_orphan (productId line_orphan) = None
   \<and> exceeds_stock catalogue_orphan line_orphan
   \<and> validateProductQuantities print_example SELL catalogue_orphan [line_orphan]
       = \<lparr>isValid = False,
          errors = [''Item #1 (undefined - Medium): Quantity (20) exceeds available stock (15).'']\<rparr>
   \<and> \<not> sublist ''Shirt''
          ''Item #1 (undefined - Medium): Quantity (20) exceeds available stock (15).''"
proof -
  have vm: "variantMap catalogue_orphan ''v7''
              = Some \<lparr>variant_id = ''v7'', variant_name = ''Medium'', price = Num 15,
                      buyPrice = Num 9, stock_fifo_queue = Some lots_example\<rparr>"
    by (simp add: variantMap_def catalogue_orphan_def)
  have pm: "productMap catalogue_orphan ''p9'' = None"
    by (simp add: productMap_def catalogue_orphan_def)
  have "\<not> sublist ''Shirt''
          ''Item #1 (undefined - Medium): Quantity (20) exceeds available stock (15).''"
    by (simp add: sublist_code prefix_code)
  moreover have "validateProductQuantities print_example SELL catalogue_orphan [line_orphan]
       = \<lparr>isValid = False,
          errors = [''Item #1 (undefined - Medium): Quantity (20) exceeds available stock (15).'']\<rparr>"
    by (simp add: validateProductQuantities_def enumerate_eq_zip line_orphan_def vm pm
        orphan_stock stock_error_def print_example_def upt_rec)
  moreover have "exceeds_stock catalogue_orphan line_orphan"
    by (simp add: exceeds_stock_def line_orphan_def vm orphan_stock)
  ultimately show ?thesis
    by (simp add: pm line_orphan_def) (simp add: catalogue_orphan_def)
qed

lemma example_accountMap: "accountMap [account_example] ''a1'' = Some account_example"
  by (simp add: accountMap_def account_example_def)

lemma example_account_fields:
  "account_name account_example = ''Cash''" "balance account_example = Num 100"
  by (simp_all add: account_example_def)

lemma example_exceeds_balance:
  "exceeds_balance [account_example] payment_over"
  "\<not> exceeds_balance [account_example] payment_ok"
  by (simp_all add: exceeds_balance_def payment_over_def payment_ok_def example_accountMap
      example_account_fields)

lemma example_balance_errors:
  "validateAccountBalances print_example print_example [payment_ok, payment_over]
       [account_example] BUY
     = \<lparr>isValid = False,
        errors = [''Payment #2 (Cash): Amount (150.00) exceeds balance (100.00)'']\<rparr>"
  by (simp add: validateAccountBalances_def enumerate_eq_zip payment_over_def payment_ok_def
      example_accountMap balance_error_def print_example_def example_account_fields upt_rec)

lemma example_balance_sell:
  "validateAccountBalances print_example print_example [payment_ok, payment_over]
       [account_example] SELL
     = \<lparr>isValid = True, errors = []\<rparr>"
  by (simp add: validateAccountBalances_def)

text \<open>
  Claim C7. For an order type other than BUY the result is valid with no errors. For a BUY
  order the result is invalid exactly when some payment is offending: its \<^verbatim>\<open>accountId\<close> is
  the identifier of an account of the list (the last such account), and its amount is
  strictly above that account's balance. The errors are the messages of the offending
  payments, one each, in order; and the message of such a payment contains the account's
  name, the requested amount and the balance.
\<close>

theorem balance_validation:
  "(otype \<noteq> BUY \<longrightarrow>
      validateAccountBalances str toFixed2 pays accounts otype = \<lparr>isValid = True, errors = []\<rparr>)
   \<and> (isValid (validateAccountBalances str toFixed2 pays accounts otype)
        \<longleftrightarrow> errors (validateAccountBalances str toFixed2 pays accounts otype) = [])
   \<and> (\<not> isValid (validateAccountBalances str toFixed2 pays accounts BUY)
        \<longleftrightarrow> (\<exists>payment\<in>set pays. exceeds_balance accounts payment))
   \<and> errors (validateAccountBalances str toFixed2 pays accounts BUY)
       = concat (map (balance_line_errors str toFixed2 accounts) (enumerate 0 pays))
   \<and> length (errors (validateAccountBalances str toFixed2 pays accounts BUY))
       = length (filter (exceeds_balance accounts) pays)
   \<and> accountMap accounts k = find (\<lambda>a. account_id a = k) (rev accounts)
   \<and> (exceeds_balance accounts payment \<longleftrightarrow>
        (\<exists>account. find (\<lambda>a. account_id a = accountId payment) (rev accounts) = Some account
           \<and> js_gt (payment_amount payment) (balance account)))
   \<and> (exceeds_balance accounts payment \<longrightarrow>
        (\<exists>account. accountMap accounts (accountId payment) = Some account
           \<and> account \<in> set accounts \<and> account_id account = accountId payment
           \<and> js_gt (payment_amount payment) (balance account)
           \<and> balance_line_errors str toFixed2 accounts (index, payment)
               = [balance_error str toFixed2 index payment account]
           \<and> (\<exists>a b c d. balance_error str toFixed2 index payment account
                   = a @ account_name account @ b @ toFixed2 (payment_amount payment) @ c
                       @ toFixed2 (balance account) @ d)))
   \<and> (\<not> exceeds_balance accounts payment \<longrightarrow>
        balance_line_errors str toFixed2 accounts (index, payment) = [])"
proof (intro conjI)
  show "otype \<noteq> BUY \<longrightarrow>
      validateAccountBalances str toFixed2 pays accounts otype = \<lparr>isValid = True, errors = []\<rparr>"
    by (simp add: validateAccountBalances_def)
  show "isValid (validateAccountBalances str toFixed2 pays accounts otype)
        \<longleftrightarrow> errors (validateAccountBalances str toFixed2 pays accounts otype) = []"
    by (rule isValid_errors_balance)
  show count: "length (errors (validateAccountBalances str toFixed2 pays accounts BUY))
       = length (filter (exceeds_balance accounts) pays)"
    unfolding balance_errors_concat
    by (rule length_concat_lines) (rule balance_line_length)
  have "\<not> isValid (validateAccountBalances str toFixed2 pays accounts BUY)
          \<longleftrightarrow> length (errors (validateAccountBalances str toFixed2 pays accounts BUY)) \<noteq> 0"
    unfolding isValid_errors_balance by simp
  then show "\<not> isValid (validateAccountBalances str toFixed2 pays accounts BUY)
        \<longleftrightarrow> (\<exists>payment\<in>set pays. exceeds_balance accounts payment)"
    unfolding count filter_empty_iff by simp
  show "errors (validateAccountBalances str toFixed2 pays accounts BUY)
       = concat (map (balance_line_errors str toFixed2 accounts) (enumerate 0 pays))"
    by (rule balance_errors_concat)
  show "accountMap accounts k = find (\<lambda>a. account_id a = k) (rev accounts)"
    by (rule accountMap_find)
  show "exceeds_balance accounts payment \<longleftrightarrow>
        (\<exists>account. find (\<lambda>a. account_id a = accountId payment) (rev accounts) = Some account
           \<and> js_gt (payment_amount payment) (balance account))"
    by (simp add: exceeds_balance_def accountMap_find split: option.splits)
  show "\<not> exceeds_balance accounts payment \<longrightarrow>
        balance_line_errors str toFixed2 accounts (index, payment) = []"
    by (auto simp: balance_line_errors_def exceeds_balance_def split: option.splits)
  show "exceeds_balance accounts payment \<longrightarrow>
        (\<exists>account. accountMap accounts (accountId payment) = Some account
           \<and> account \<in> set accounts \<and> account_id account = accountId payment
           \<and> js_gt (payment_amount payment) (balance account)
           \<and> balance_line_errors str toFixed2 accounts (index, payment)
               = [balance_error str toFixed2 index payment account]
           \<and> (\<exists>a b c d. balance_error str toFixed2 index payment account
                   = a @ account_name account @ b @ toFixed2 (payment_amount payment) @ c
                       @ toFixed2 (balance account) @ d))"
  proof
    assume "exceeds_balance accounts payment"
    then obtain account where a: "accountMap accounts (accountId payment) = Some account"
      and gt: "js_gt (payment_amount payment) (balance account)"
      by (auto simp: exceeds_balance_def split: option.splits)
    from a have found: "account \<in> set accounts" "account_id account = accountId payment"
      unfolding accountMap_find by (auto dest: find_in_set)
    have "balance_error str toFixed2 index payment account
            = (''Payment #'' @ str (Num (real (index + 1))) @ '' ('') @ account_name account
              @ ''): Amount ('' @ toFixed2 (payment_amount payment) @ '') exceeds balance (''
              @ toFixed2 (balance account) @ '')''"
      by (simp add: balance_error_def)
    then have msg: "\<exists>a b c d. balance_error str toFixed2 index payment account
                     = a @ account_name account @ b @ toFixed2 (payment_amount payment) @ c
                         @ toFixed2 (balance account) @ d"
      by blast
    from a gt
    have line: "balance_line_errors str toFixed2 accounts (index, payment)
                 = [balance_error str toFixed2 index payment account]"
      by (simp add: balance_line_errors_def)
    show "\<exists>account. accountMap accounts (accountId payment) = Some account
             \<and> account \<in> set accounts \<and> account_id account = accountId payment
             \<and> js_gt (payment_amount payment) (balance account)
             \<and> balance_line_errors str toFixed2 accounts (index, payment)
                 = [balance_error str toFixed2 index payment account]
             \<and> (\<exists>a b c d. balance_error str toFixed2 index payment account
                     = a @ account_name account @ b @ toFixed2 (payment_amount payment) @ c
                         @ toFixed2 (balance account) @ d)"
      by (intro exI [of _ account] conjI) (fact a found gt line msg)+
  qed
qed

text \<open>Payments of 50 and 150 from an account with a balance of 100.\<close>

theorem balance_validation_witness:
  "SELL \<noteq> BUY
   \<and> validateAccountBalances print_example print_example [payment_ok, payment_over]
         [account_example] SELL
       = \<lparr>isValid = True, errors = []\<rparr>
   \<and> accountMap [account_example] (accountId payment_over) = Some account_example
   \<and> exceeds_balance [account_example] payment_over
   \<and> \<not> exceeds_balance [account_example] payment_ok
   \<and> validateAccountBalances print_example print_example [payment_ok, payment_over]
         [account_example] BUY
       = \<lparr>isValid = False,
          errors = [''Payment #2 (Cash): Amount (150.00) exceeds balance (100.00)'']\<rparr>
   \<and> length (errors (validateAccountBalances print_example print_example
                        [payment_ok, payment_over] [account_example] BUY)) = 1"
proof -
  have "length (errors (validateAccountBalances print_example print_example
                          [payment_ok, payment_over] [account_example] BUY))
          = length (filter (exceeds_balance [account_example]) [payment_ok, payment_over])"
    using balance_validation [of SELL print_example print_example "[payment_ok, payment_over]"
        "[account_example]" "''a1''" payment_over 1]
    by blast
  then have "length (errors (validateAccountBalances print_example print_example
                        [payment_ok, payment_over] [account_example] BUY)) = 1"
    by (simp add: example_exceeds_balance)
  moreover have "accountMap [account_example] (accountId payment_over) = Some account_example"
    by (simp add: payment_over_def example_accountMap)
  ultimately show ?thesis
    using example_exceeds_balance example_balance_errors example_balance_sell by simp
qed

section \<open>Properties of the order form\<close>

text \<open>
  Claim C9, as the code has it. A reset leaves the same empty cart whatever the form held:
  no entity, one blank line item, discount and tax 0 and of fixed type with percentage 0, no
  charges, no payments, an empty description, not public; it clears the error and returns
  to the details step. A second reset changes nothing but the order date, which every reset
  sets to the time it runs at; two resets at the same time give the same state.
\<close>

theorem reset_twice:
  "formState (resetForm t2 (resetForm t1 st)) = (formState (resetForm t1 st))\<lparr>orderDate := t2\<rparr>
   \<and> formState (resetForm t1 st) =
       \<lparr>entity = None,
        products = [\<lparr>productId = '''', variantId = '''', rate = Num 0, quantity = Num 1,
                     description = ''''\<rparr>],
        discount = Num 0, discountType = Fixed, discountPercentage = Num 0,
        charges = [],
        tax = Num 0, taxType = Fixed, taxPercentage = Num 0,
        form_description = '''',
        orderDate = t1,
        payments = [],
        isPublic = False\<rparr>
   \<and> error (resetForm t2 (resetForm t1 st)) = None
   \<and> error (resetForm t1 st) = None
   \<and> currentStep (resetForm t2 (resetForm t1 st)) = Details
   \<and> currentStep (resetForm t1 st) = Details
   \<and> loading (resetForm t2 (resetForm t1 st)) = loading st
   \<and> resetForm t1 (resetForm t1 st) = resetForm t1 st"
  by (simp add: resetForm_def)

text \<open>
  Two resets one second apart: the order date after the second reset is not the order date
  after the first, so the two states differ.
\<close>

theorem reset_twice_counterexample:
  "orderDate (formState (resetForm 1700000002000 (resetForm 1700000001000 form_example)))
     \<noteq> orderDate (formState (resetForm 1700000001000 form_example))
   \<and> resetForm 1700000002000 (resetForm 1700000001000 form_example)
        \<noteq> resetForm 1700000001000 form_example"
  by (simp add: resetForm_def form_example_def)

section \<open>Properties of the quantity stepper\<close>

lemma nth_updateProductAtIndex:
  "j < length items \<Longrightarrow>
     updateProductAtIndex items index updates ! j
       = (if j = index then spread (items ! j) updates else items ! j)"
  by (simp add: updateProductAtIndex_def nth_enumerate_eq)

lemma length_updateProductAtIndex: "length (updateProductAtIndex items index updates) = length items"
  by (simp add: updateProductAtIndex_def)

lemma clamp_min1_ge: "\<exists>k. clamp_min1 n = Num k \<and> 1 \<le> k"
  by (cases n) (simp_all add: clamp_min1_def)

lemma example_empty_stock: "getVariantStock (Some variant_empty) = Num 0"
  by (simp add: getVariantStock_def variant_empty_def)

lemma example_sell_20:
  "handleQuantityChange SELL (Some variant_example) [line_ok, line_edited] 1 (Num 20)
     = [line_ok, line_edited\<lparr>rate := Num 15, quantity := Num 15\<rparr>]"
  by (simp add: handleQuantityChange_def updateProductAtIndex_def enumerate_eq_zip upt_rec
      spread_def example_stock Let_def)
     (simp add: variant_example_def line_edited_def)

lemma example_buy_0:
  "handleQuantityChange BUY (Some variant_example) [line_ok, line_edited] 1 (Num 0)
     = [line_ok, line_edited\<lparr>quantity := Num 1\<rparr>]"
  by (simp add: handleQuantityChange_def updateProductAtIndex_def enumerate_eq_zip upt_rec
      spread_def Let_def)

lemma example_sell_empty:
  "handleQuantityChange SELL (Some variant_empty) [line_edited] 0 (Num 3)
     = [line_edited\<lparr>rate := Num 15, quantity := Num 0\<rparr>]"
  by (simp add: handleQuantityChange_def updateProductAtIndex_def enumerate_eq_zip upt_rec
      spread_def example_empty_stock Let_def)
     (simp add: variant_empty_def line_edited_def)

text \<open>
  Claim C10, as the code has it. The handler changes only the line at its index. On a SELL
  line with a resolved variant the quantity becomes
  \<^verbatim>\<open>Math.min(Math.max(1, newQuantity || 1), stock)\<close> and the rate becomes the variant's sell
  price, whatever the rate was; that quantity lies between 1 and the stock when the stock is
  at least 1, and is the stock itself when the stock is below 1. On any other line the
  quantity becomes \<^verbatim>\<open>Math.max(1, newQuantity || 1)\<close>, which is at least 1, and the rate
  stays.
\<close>

theorem quantity_change:
  "length (handleQuantityChange otype variant items index n) = length items
   \<and> (j < length items \<and> j \<noteq> index \<longrightarrow>
        handleQuantityChange otype variant items index n ! j = items ! j)
   \<and> (index < length items \<and> otype = SELL \<and> variant = Some v \<longrightarrow>
        handleQuantityChange otype variant items index n ! index
          = (items ! index)\<lparr>rate := price v,
                            quantity := js_min (clamp_min1 n) (getVariantStock (Some v))\<rparr>)
   \<and> (index < length items \<and> (otype \<noteq> SELL \<or> variant = None) \<longrightarrow>
        handleQuantityChange otype variant items index n ! index
          = (items ! index)\<lparr>quantity := clamp_min1 n\<rparr>)
   \<and> js_le (Num 1) (clamp_min1 n)
   \<and> (getVariantStock (Some v) = Num s \<and> 1 \<le> s \<longrightarrow>
        js_le (Num 1) (js_min (clamp_min1 n) (getVariantStock (Some v)))
        \<and> js_le (js_min (clamp_min1 n) (getVariantStock (Some v))) (getVariantStock (Some v)))
   \<and> (getVariantStock (Some v) = Num s \<and> s < 1 \<longrightarrow>
        js_min (clamp_min1 n) (getVariantStock (Some v)) = Num s)"
proof (intro conjI impI)
  show "length (handleQuantityChange otype variant items index n) = length items"
    by (simp add: handleQuantityChange_def Let_def length_updateProductAtIndex)
next
  assume "j < length items \<and> j \<noteq> index"
  then show "handleQuantityChange otype variant items index n ! j = items ! j"
    by (simp add: handleQuantityChange_def Let_def nth_updateProductAtIndex)
next
  assume "index < length items \<and> otype = SELL \<and> variant = Some v"
  then show "handleQuantityChange otype variant items index n ! index
          = (items ! index)\<lparr>rate := price v,
                            quantity := js_min (clamp_min1 n) (getVariantStock (Some v))\<rparr>"
    by (simp add: handleQuantityChange_def Let_def nth_updateProductAtIndex spread_def clamp_min1_def)
next
  assume "index < length items \<and> (otype \<noteq> SELL \<or> variant = None)"
  then show "handleQuantityChange otype variant items index n ! index
          = (items ! index)\<lparr>quantity := clamp_min1 n\<rparr>"
    by (auto simp: handleQuantityChange_def Let_def nth_updateProductAtIndex spread_def
        clamp_min1_def split: option.splits)
next
  from clamp_min1_ge [of n] show "js_le (Num 1) (clamp_min1 n)" by auto
next
  assume "getVariantStock (Some v) = Num s \<and> 1 \<le> s"
  with clamp_min1_ge [of n]
  show "js_le (Num 1) (js_min (clamp_min1 n) (getVariantStock (Some v)))"
    and "js_le (js_min (clamp_min1 n) (getVariantStock (Some v))) (getVariantStock (Some v))"
    by auto
next
  assume "getVariantStock (Some v) = Num s \<and> s < 1"
  with clamp_min1_ge [of n] show "js_min (clamp_min1 n) (getVariantStock (Some v)) = Num s"
    by auto
qed

text \<open>
  A line whose rate was edited to 99: asking for 20 units of a variant with 15 in stock on a
  SELL order gives 15 units at the variant's price of 15; asking for 0 units on a BUY order
  gives 1 unit at the rate of 99; and on a SELL order of a variant without stock the
  quantity becomes 0.
\<close>

theorem quantity_change_witness:
  "(0::nat) < length [line_ok, line_edited] \<and> (0::nat) \<noteq> 1
   \<and> (1::nat) < length [line_ok, line_edited]
   \<and> handleQuantityChange SELL (Some variant_example) [line_ok, line_edited] 1 (Num 20)
       = [line_ok, line_edited\<lparr>rate := Num 15, quantity := Num 15\<rparr>]
   \<and> rate line_edited = Num 99 \<and> price variant_example = Num 15
   \<and> BUY \<noteq> SELL
   \<and> handleQuantityChange BUY (Some variant_example) [line_ok, line_edited] 1 (Num 0)
       = [line_ok, line_edited\<lparr>quantity := Num 1\<rparr>]
   \<and> getVariantStock (Some variant_example) = Num 15 \<and> (1::real) \<le> 15
   \<and> js_min (clamp_min1 (Num 20)) (getVariantStock (Some variant_example)) = Num 15
   \<and> getVariantStock (Some variant_empty) = Num 0 \<and> (0::real) < 1
   \<and> js_min (clamp_min1 (Num 3)) (getVariantStock (Some variant_empty)) = Num 0
   \<and> handleQuantityChange SELL (Some variant_empty) [line_edited] 0 (Num 3)
       = [line_edited\<lparr>rate := Num 15, quantity := Num 0\<rparr>]"
proof -
  have idx: "(1::nat) < length [line_ok, line_edited]" "(0::nat) < length [line_ok, line_edited]"
    "(0::nat) \<noteq> 1"
    by simp_all
  have low: "(0::real) < 1" by simp
  from quantity_change [of SELL "Some variant_empty" "[line_edited]" 0 "Num 3" 0 variant_empty 0]
    example_empty_stock low
  have "js_min (clamp_min1 (Num 3)) (getVariantStock (Some variant_empty)) = Num 0"
    by blast
  moreover have "js_min (clamp_min1 (Num 20)) (getVariantStock (Some variant_example)) = Num 15"
    by (simp add: clamp_min1_def example_stock)
  moreover have "rate line_edited = Num 99 \<and> price variant_example = Num 15"
    by (simp add: line_edited_def variant_example_def)
  ultimately show ?thesis
    using idx low example_sell_20 example_buy_0 example_sell_empty example_stock
      example_empty_stock
    by simp
qed

text \<open>
  On a SELL line of a variant without stock the handler sets the quantity to 0, which is
  not in the range from 1 to the stock.
\<close>

theorem quantity_change_counterexample:
  "quantity (handleQuantityChange SELL
               (Some \<lparr>variant_id = ''v2'', variant_name = ''Shirt-L'', price = Num 15,
                      buyPrice = Num 9, stock_fifo_queue = Some []\<rparr>)
               [\<lparr>productId = ''p1'', variantId = ''v2'', rate = Num 99, quantity = Num 3,
                 description = ''''\<rparr>]
               0 (Num 3) ! 0) = Num 0
   \<and> \<not> js_le (Num 1)
         (quantity (handleQuantityChange SELL
               (Some \<lparr>variant_id = ''v2'', variant_name = ''Shirt-L'', price = Num 15,
                      buyPrice = Num 9, stock_fifo_queue = Some []\<rparr>)
               [\<lparr>productId = ''p1'', variantId = ''v2'', rate = Num 99, quantity = Num 3,
                 description = ''''\<rparr>]
               0 (Num 3) ! 0))"
  by (simp add: handleQuantityChange_def updateProductAtIndex_def enumerate_eq_zip upt_rec
      spread_def getVariantStock_def Let_def)

end
